theory Spec2Isabelle
  imports Complex_Main
begin

section \<open>JavaScript values used by the two scripts\<close>

text \<open>
  Every number in the marks arithmetic comes from \<^verbatim>\<open>parseInt\<close> or from an integer
  literal, so it is an integer or \<^verbatim>\<open>NaN\<close> (\<^verbatim>\<open>parseInt('')\<close>, the value of a cleared
  number field, is \<^verbatim>\<open>NaN\<close>). Integers stand for the doubles of magnitude below \<open>2^53\<close>,
  on which \<^verbatim>\<open>+\<close>, \<^verbatim>\<open>-\<close>, \<^verbatim>\<open>*\<close> are exact. \<^verbatim>\<open>NaN\<close> propagates through arithmetic and
  makes every comparison false. The progress values, which grow by multiples of
  \<^verbatim>\<open>Math.random()\<close>, are real numbers.
\<close>

datatype jsnum = Num int | NaN

fun jadd :: "jsnum \<Rightarrow> jsnum \<Rightarrow> jsnum" where
  "jadd (Num a) (Num b) = Num (a + b)"
| "jadd _ _ = NaN"

fun jsub :: "jsnum \<Rightarrow> jsnum \<Rightarrow> jsnum" where
  "jsub (Num a) (Num b) = Num (a - b)"
| "jsub _ _ = NaN"

fun jmul :: "jsnum \<Rightarrow> jsnum \<Rightarrow> jsnum" where
  "jmul (Num a) (Num b) = Num (a * b)"
| "jmul _ _ = NaN"

fun jabs :: "jsnum \<Rightarrow> jsnum" where
  "jabs (Num a) = Num \<bar>a\<bar>"
| "jabs NaN = NaN"

fun jgt :: "jsnum \<Rightarrow> jsnum \<Rightarrow> bool" where
  "jgt (Num a) (Num b) = (a > b)"
| "jgt _ _ = False"

fun jle :: "jsnum \<Rightarrow> jsnum \<Rightarrow> bool" where
  "jle (Num a) (Num b) = (a \<le> b)"
| "jle _ _ = False"

subsection \<open>Numbers as text\<close>

definition digit_char :: "nat \<Rightarrow> char" where
  "digit_char d = ''0123456789abcdef'' ! d"

fun show_nat :: "nat \<Rightarrow> string" where
  "show_nat n = (if n < 10 then [digit_char n] else show_nat (n div 10) @ [digit_char (n mod 10)])"

declare show_nat.simps [simp del]

definition show_int :: "int \<Rightarrow> string" where
  "show_int i = (if i < 0 then ''-'' @ show_nat (nat (- i)) else show_nat (nat i))"

text \<open>\<^verbatim>\<open>String(n)\<close>, as a template literal \<^verbatim>\<open>${n}\<close> renders a number.\<close>

fun js_string :: "jsnum \<Rightarrow> string" where
  "js_string (Num i) = show_int i"
| "js_string NaN = ''NaN''"

subsection \<open>\<^verbatim>\<open>parseInt\<close>\<close>

text \<open>
  \<^verbatim>\<open>parseInt(v)\<close> without a radix: leading white space is skipped, then a sign, then
  \<^verbatim>\<open>0x\<close> or \<^verbatim>\<open>0X\<close> selects radix 16, then the longest run of digits of the radix is read;
  what follows is ignored, and the result is \<^verbatim>\<open>NaN\<close> when there is no digit.
\<close>

definition is_space :: "char \<Rightarrow> bool" where
  "is_space c = (c \<in> set [CHR '' '', CHR 0x09, CHR 0x0A, CHR 0x0B, CHR 0x0C, CHR 0x0D])"

definition digit_value :: "char \<Rightarrow> nat option" where
  "digit_value c =
     (let n = (of_char c :: nat) in
      if 48 \<le> n \<and> n \<le> 57 then Some (n - 48)
      else if 97 \<le> n \<and> n \<le> 122 then Some (n - 87)
      else if 65 \<le> n \<and> n \<le> 90 then Some (n - 55)
      else None)"

definition is_digit :: "nat \<Rightarrow> char \<Rightarrow> bool" where
  "is_digit radix c = (case digit_value c of None \<Rightarrow> False | Some d \<Rightarrow> d < radix)"

definition parseInt :: "string \<Rightarrow> jsnum" where
  "parseInt v =
     (let t = dropWhile is_space v;
          negative = (take 1 t = ''-'');
          t1 = (if take 1 t = ''-'' \<or> take 1 t = ''+'' then drop 1 t else t);
          hex = (take 2 t1 = ''0x'' \<or> take 2 t1 = ''0X'');
          radix = (if hex then 16 else 10);
          t2 = (if hex then drop 2 t1 else t1);
          ds = takeWhile (is_digit radix) t2;
          n = foldl (\<lambda>a c. a * int radix + int (the (digit_value c))) 0 ds
      in if ds = [] then NaN else Num (if negative then - n else n))"

subsection \<open>\<^verbatim>\<open>JSON.stringify\<close>\<close>

datatype json =
    JString string
  | JNumber jsnum
  | JArray "json list"
  | JObject "(string \<times> json) list"

fun join :: "string \<Rightarrow> string list \<Rightarrow> string" where
  "join sep [] = []"
| "join sep [x] = x"
| "join sep (x # y # ys) = x @ sep @ join sep (y # ys)"

text \<open>
  A string is written between double quotes; the quote, the backslash and the control
  characters are escaped.
\<close>

definition escape_char :: "char \<Rightarrow> string" where
  "escape_char c =
     (if c = CHR 0x22 then [CHR 0x5C, CHR 0x22]
      else if c = CHR 0x5C then [CHR 0x5C, CHR 0x5C]
      else if c = CHR 0x08 then [CHR 0x5C, CHR ''b'']
      else if c = CHR 0x0C then [CHR 0x5C, CHR ''f'']
      else if c = CHR 0x0A then [CHR 0x5C, CHR ''n'']
      else if c = CHR 0x0D then [CHR 0x5C, CHR ''r'']
      else if c = CHR 0x09 then [CHR 0x5C, CHR ''t'']
      else if (of_char c :: nat) < 32
        then [CHR 0x5C, CHR ''u'', CHR ''0'', CHR ''0'',
              digit_char (of_char c div 16), digit_char (of_char c mod 16)]
      else [c])"

definition quote :: "string \<Rightarrow> string" where
  "quote s = [CHR 0x22] @ concat (map escape_char s) @ [CHR 0x22]"

text \<open>A number that is not finite is written \<^verbatim>\<open>null\<close>.\<close>

fun json_number :: "jsnum \<Rightarrow> string" where
  "json_number (Num i) = show_int i"
| "json_number NaN = ''null''"

fun stringify :: "json \<Rightarrow> string" where
  "stringify (JString s) = quote s"
| "stringify (JNumber n) = json_number n"
| "stringify (JArray xs) = ''['' @ join '','' (map stringify xs) @ '']''"
| "stringify (JObject kvs) =
     ''{'' @ join '','' (map (\<lambda>(k, v). quote k @ '':'' @ stringify v) kvs) @ ''}''"

subsection \<open>Progress simulations\<close>

text \<open>
  Every call of \<^verbatim>\<open>handleSubmit\<close> or \<^verbatim>\<open>uploadFiles\<close> that sends a request declares its own
  variable \<^verbatim>\<open>progress\<close> and sets its own interval; the handlers of that request clear that
  interval and no other. A simulation is this pair: the closure variable and whether the
  interval is still set, together with the delay given to \<^verbatim>\<open>setInterval\<close> and the time, in
  the same units, that has passed on the interval's schedule when its callback last ran
  (the callback runs once per delay). A page keeps the simulations of its calls in the
  order of the calls; the position is the handle that \<^verbatim>\<open>setInterval\<close> returned.
\<close>

record simulation =
  progress :: real
  running :: bool
  delay :: nat
  elapsed :: nat

definition setInterval :: "nat \<Rightarrow> simulation" where
  \<comment> \<open>\<^verbatim>\<open>let progress = 0; const progressInterval = setInterval(..., d)\<close>\<close>
  "setInterval d = \<lparr>progress = 0, running = True, delay = d, elapsed = 0\<rparr>"

definition clearInterval :: "nat \<Rightarrow> simulation list \<Rightarrow> simulation list" where
  "clearInterval k sims = (if k < length sims then sims[k := (sims ! k)\<lparr>running := False\<rparr>] else sims)"

text \<open>
  A later state of one simulation, for a ceiling and a largest increment: the progress has
  not decreased and is at most the ceiling, the delay is the same, the progress gained
  per delay is at most the increment, and a simulation whose interval was cleared has not
  changed at all.
\<close>

definition later :: "real \<Rightarrow> real \<Rightarrow> simulation \<Rightarrow> simulation \<Rightarrow> bool" where
  "later top_value increment a b =
     (progress a \<le> progress b \<and> progress b \<le> top_value \<and> delay b = delay a
      \<and> elapsed a \<le> elapsed b
      \<and> real (delay a) * (progress b - progress a) \<le>
          increment * (real (elapsed b) - real (elapsed a))
      \<and> (\<not> running a \<longrightarrow> b = a))"

section \<open>Configuration page (\<^verbatim>\<open>configure.js\<close>)\<close>

subsection \<open>State\<close>

text \<open>
  A question set is the object literal of \<^verbatim>\<open>addQuestionSet\<close>: \<^verbatim>\<open>{id, type, marks, count}\<close>.
\<close>

record question_set =
  set_id :: nat
  set_type :: string
  set_marks :: jsnum
  set_count :: jsnum

datatype kind = KSuccess | KError

record request =
  url :: string
  question_config :: string

text \<open>
  The state is the two module variables \<^verbatim>\<open>questionSets\<close> and \<^verbatim>\<open>totalMarks\<close>, the parts of
  the page that the functions read and write, the notifications shown so far, the requests
  sent so far, and the progress simulations of the calls of \<^verbatim>\<open>handleSubmit\<close>.

  \<^item> \<open>session_id\<close>: the value of \<^verbatim>\<open>input[name="session_id"]\<close>, \<open>None\<close> when the page has
    no such input.
  \<^item> \<open>questionSetsContainer\<close>, \<open>totalMarksDisplay\<close>, \<open>loadingModal\<close>, \<open>progressBar\<close>: whether
    the element that the code tests before use is on the page.
  \<^item> \<open>total_marks\<close>: the value of the target select \<^verbatim>\<open>#total_marks\<close>.
  \<^item> \<open>display_text\<close>, \<open>display_class\<close>: text and class of \<^verbatim>\<open>#totalMarksDisplay\<close>.
  \<^item> \<open>loading_shown\<close>: the modal \<^verbatim>\<open>#loading\<close> is displayed.
  \<^item> \<open>generateProgress\<close>: the width of \<^verbatim>\<open>#generateProgress\<close> in percent.
  \<^item> \<open>progressIntervals\<close>: one simulation for each request sent, in the order of the calls.
  \<^item> \<open>navigation\<close>: the pending redirect, with its delay.

  The scalar form fields (title, subject, difficulty, topics, instructions) are copied
  into the request as they stand and are left out; so are the per-set elements of the
  page.
\<close>

record config_state =
  questionSets :: "question_set list"
  totalMarks :: jsnum
  session_id :: "string option"
  questionSetsContainer :: bool
  totalMarksDisplay :: bool
  loadingModal :: bool
  progressBar :: bool
  total_marks :: string
  display_text :: jsnum
  display_class :: string
  loading_shown :: bool
  generateProgress :: real
  progressIntervals :: "simulation list"
  navigation :: "(nat \<times> string option) option"
  notifications :: "(string \<times> kind) list"
  requests :: "request list"

definition showNotification :: "string \<Rightarrow> kind \<Rightarrow> config_state \<Rightarrow> config_state" where
  "showNotification msg k s = s\<lparr>notifications := notifications s @ [(msg, k)]\<rparr>"

subsection \<open>Totals and validation\<close>

definition tolerance_ok :: "jsnum \<Rightarrow> jsnum \<Rightarrow> bool" where
  \<comment> \<open>\<^verbatim>\<open>Math.abs(totalMarks - targetMarks) <= 5\<close>\<close>
  "tolerance_ok marks target = jle (jabs (jsub marks target)) (Num 5)"

definition tolerance_exceeded :: "jsnum \<Rightarrow> jsnum \<Rightarrow> bool" where
  \<comment> \<open>\<^verbatim>\<open>Math.abs(totalMarks - targetMarks) > 5\<close>\<close>
  "tolerance_exceeded marks target = jgt (jabs (jsub marks target)) (Num 5)"

definition updateMarksValidation :: "config_state \<Rightarrow> config_state" where
  "updateMarksValidation s =
     (let targetMarks = parseInt (total_marks s) in
      if totalMarksDisplay s then
        (if tolerance_ok (totalMarks s) targetMarks
         then s\<lparr>display_class := ''text-green-600 font-bold''\<rparr>
         else s\<lparr>display_class := ''text-red-600 font-bold''\<rparr>)
      else s)"

definition computeTotal :: "question_set list \<Rightarrow> jsnum" where
  \<comment> \<open>\<^verbatim>\<open>questionSets.reduce((sum, set) => sum + (set.marks * set.count), 0)\<close>\<close>
  "computeTotal qs = foldl (\<lambda>sum set. jadd sum (jmul (set_marks set) (set_count set))) (Num 0) qs"

definition updateTotalMarks :: "config_state \<Rightarrow> config_state" where
  "updateTotalMarks s =
     (let s1 = s\<lparr>totalMarks := computeTotal (questionSets s)\<rparr>;
          s2 = (if totalMarksDisplay s1 then s1\<lparr>display_text := totalMarks s1\<rparr> else s1)
      in updateMarksValidation s2)"

subsection \<open>Operations on the question sets\<close>

definition addQuestionSet :: "config_state \<Rightarrow> config_state" where
  "addQuestionSet s =
     (if \<not> questionSetsContainer s then s
      else
        let setIndex = length (questionSets s);
            questionSet = \<lparr>set_id = setIndex, set_type = ''short'',
                           set_marks = Num 5, set_count = Num 1\<rparr>
        in updateTotalMarks (s\<lparr>questionSets := questionSets s @ [questionSet]\<rparr>))"

text \<open>
  \<^verbatim>\<open>updateQuestionSet(setIndex, property, value)\<close> is called from the three change
  handlers of a set's element: \<^verbatim>\<open>'type'\<close> with the select's value, \<^verbatim>\<open>'marks'\<close> and
  \<^verbatim>\<open>'count'\<close> with \<^verbatim>\<open>parseInt\<close> of the field's value.
\<close>

datatype property = Type string | Marks jsnum | Count jsnum

fun assign :: "property \<Rightarrow> question_set \<Rightarrow> question_set" where
  "assign (Type v) q = q\<lparr>set_type := v\<rparr>"
| "assign (Marks v) q = q\<lparr>set_marks := v\<rparr>"
| "assign (Count v) q = q\<lparr>set_count := v\<rparr>"

definition updateQuestionSet :: "nat \<Rightarrow> property \<Rightarrow> config_state \<Rightarrow> config_state" where
  \<comment> \<open>\<^verbatim>\<open>questionSets[setIndex]\<close> is \<^verbatim>\<open>undefined\<close> beyond the end of the array\<close>
  "updateQuestionSet setIndex pv s =
     (if setIndex < length (questionSets s) then
        updateTotalMarks
          (s\<lparr>questionSets := (questionSets s)[setIndex := assign pv (questionSets s ! setIndex)]\<rparr>)
      else s)"

text \<open>The three change handlers, with the value of the field that changed.\<close>

definition onchange_type :: "nat \<Rightarrow> string \<Rightarrow> config_state \<Rightarrow> config_state" where
  "onchange_type setIndex v s = updateQuestionSet setIndex (Type v) s"

definition onchange_marks :: "nat \<Rightarrow> string \<Rightarrow> config_state \<Rightarrow> config_state" where
  "onchange_marks setIndex v s = updateQuestionSet setIndex (Marks (parseInt v)) s"

definition onchange_count :: "nat \<Rightarrow> string \<Rightarrow> config_state \<Rightarrow> config_state" where
  "onchange_count setIndex v s = updateQuestionSet setIndex (Count (parseInt v)) s"

definition removeQuestionSet :: "nat \<Rightarrow> config_state \<Rightarrow> config_state" where
  "removeQuestionSet setIndex s =
     (if length (questionSets s) \<le> 1 then
        showNotification ''At least one question set is required.'' KError s
      else
        updateTotalMarks
          (s\<lparr>questionSets := filter (\<lambda>set. set_id set \<noteq> setIndex) (questionSets s)\<rparr>))"

subsection \<open>Submission\<close>

definition questionConfig :: "question_set list \<Rightarrow> json" where
  \<comment> \<open>\<^verbatim>\<open>{question_sets: questionSets.map(set => ({type: set.type, marks: set.marks, count: set.count}))}\<close>\<close>
  "questionConfig qs =
     JObject [(''question_sets'',
       JArray (map (\<lambda>set. JObject [(''type'', JString (set_type set)),
                                    (''marks'', JNumber (set_marks set)),
                                    (''count'', JNumber (set_count set))]) qs))]"

text \<open>
  \<^verbatim>\<open>handleSubmit\<close> up to the call of \<^verbatim>\<open>fetch\<close>: the three checks, each with its early
  return, then the request, the modal and the start of the progress timer. The request
  is recorded by appending it to \<open>requests\<close>.
\<close>

definition handleSubmit :: "config_state \<Rightarrow> config_state" where
  "handleSubmit s =
     (case session_id s of
        None \<Rightarrow> showNotification ''Session expired. Please start over.'' KError s
      | Some sessionId \<Rightarrow>
          if sessionId = [] then
            showNotification ''Session expired. Please start over.'' KError s
          else if length (questionSets s) = 0 then
            showNotification ''Please add at least one question set.'' KError s
          else
            let targetMarks = parseInt (total_marks s) in
            if tolerance_exceeded (totalMarks s) targetMarks then
              showNotification
                (''Total marks ('' @ js_string (totalMarks s) @
                 '') should be close to target marks ('' @ js_string targetMarks @ '').'')
                KError s
            else
              s\<lparr>requests := requests s @
                     [\<lparr>url = ''/generate/'' @ sessionId,
                       question_config = stringify (questionConfig (questionSets s))\<rparr>],
                 loading_shown := (if loadingModal s then True else loading_shown s),
                 progressIntervals := progressIntervals s @ [setInterval 1000]\<rparr>)"

text \<open>
  The timer callback of the call with handle \<open>k\<close>, with \<open>r\<close> the value of
  \<^verbatim>\<open>Math.random()\<close>. It runs only while that interval is set. It changes the variable of
  its own call and writes the bar, which all calls share.
\<close>

definition handleSubmit_tick :: "nat \<Rightarrow> real \<Rightarrow> config_state \<Rightarrow> config_state" where
  "handleSubmit_tick k r s =
     (if k < length (progressIntervals s) \<and> running (progressIntervals s ! k) then
        let sim = progressIntervals s ! k;
            p = progress sim + r * 10;
            p' = (if p > 80 then 80 else p)
        in s\<lparr>progressIntervals :=
               (progressIntervals s)[k := sim\<lparr>progress := p', elapsed := elapsed sim + delay sim\<rparr>],
             generateProgress := (if progressBar s then p' else generateProgress s)\<rparr>
      else s)"

text \<open>
  What \<^verbatim>\<open>fetch\<close> settles with: a rejection (a transport error with its message), or a
  response with its status code, status text and body. The body either does not parse
  (then \<^verbatim>\<open>response.json()\<close> rejects with an error, whose message is kept), or parses to
  \<^verbatim>\<open>null\<close> (then reading \<^verbatim>\<open>data.status\<close> throws, with the message kept), or parses to a
  value of which the handlers read \<^verbatim>\<open>status\<close>, \<^verbatim>\<open>message\<close> and \<^verbatim>\<open>redirect\<close>.
\<close>

record data =
  status :: "string option"
  message :: "string option"
  redirect :: "string option"

datatype body = NotJson string | JsonNull string | Json data

datatype fetch_result = Rejected string | Response nat string body

definition ok :: "nat \<Rightarrow> bool" where
  \<comment> \<open>\<^verbatim>\<open>response.ok\<close>\<close>
  "ok code = (200 \<le> code \<and> code \<le> 299)"

definition or_else :: "string option \<Rightarrow> string \<Rightarrow> string" where
  \<comment> \<open>\<^verbatim>\<open>data.message || fallback\<close>: an absent or empty message is falsy\<close>
  "or_else m fallback = (case m of None \<Rightarrow> fallback | Some t \<Rightarrow> if t = [] then fallback else t)"

text \<open>The handlers of the request of the call with handle \<open>k\<close>.\<close>

definition handleSubmit_catch :: "nat \<Rightarrow> string \<Rightarrow> config_state \<Rightarrow> config_state" where
  "handleSubmit_catch k error_message s =
     (let s1 = s\<lparr>progressIntervals := clearInterval k (progressIntervals s)\<rparr>;
          s2 = showNotification (''Generation failed: '' @ error_message) KError s1
      in if loadingModal s2 then s2\<lparr>loading_shown := False\<rparr> else s2)"

text \<open>
  The handler of the parsed body; \<open>Inl\<close> is the message of the error that reading
  \<^verbatim>\<open>data.status\<close> of \<^verbatim>\<open>null\<close> throws.
\<close>

definition handleSubmit_then :: "nat \<Rightarrow> string + data \<Rightarrow> config_state \<Rightarrow> config_state" where
  "handleSubmit_then k parsed s =
     (let s1 = s\<lparr>progressIntervals := clearInterval k (progressIntervals s)\<rparr>;
          s2 = (if progressBar s1 then s1\<lparr>generateProgress := 100\<rparr> else s1)
      in case parsed of
           Inl error_message \<Rightarrow> handleSubmit_catch k error_message s2
         | Inr d \<Rightarrow>
             if status d = Some ''success'' then
               (showNotification ''Question paper generated successfully!'' KSuccess s2)
                 \<lparr>navigation := Some (1500, redirect d)\<rparr>
             else handleSubmit_catch k (or_else (message d) ''Generation failed'') s2)"

definition handleSubmit_response :: "nat \<Rightarrow> fetch_result \<Rightarrow> config_state \<Rightarrow> config_state" where
  "handleSubmit_response k res s =
     (case res of
        Rejected error_message \<Rightarrow> handleSubmit_catch k error_message s
      | Response code statusText b \<Rightarrow>
          if \<not> ok code then
            handleSubmit_catch k (''HTTP '' @ show_nat code @ '': '' @ statusText) s
          else
            (case b of
               NotJson error_message \<Rightarrow> handleSubmit_catch k error_message s
             | JsonNull error_message \<Rightarrow> handleSubmit_then k (Inl error_message) s
             | Json d \<Rightarrow> handleSubmit_then k (Inr d) s))"

subsection \<open>Page load and user actions\<close>

text \<open>
  The script starts with an empty list and a total of \<open>0\<close>; the load handler adds the
  first question set. The argument gives the page the script runs on.
\<close>

definition DOMContentLoaded :: "config_state \<Rightarrow> config_state" where
  "DOMContentLoaded page = addQuestionSet (page\<lparr>questionSets := [], totalMarks := Num 0\<rparr>)"

definition change_total_marks :: "string \<Rightarrow> config_state \<Rightarrow> config_state" where
  \<comment> \<open>the user picks another target: the select's change handler is \<^verbatim>\<open>updateMarksValidation\<close>\<close>
  "change_total_marks v s = updateMarksValidation (s\<lparr>total_marks := v\<rparr>)"

datatype action =
    Add
  | Update nat property
  | Remove nat
  | ChangeTarget string
  | Submit

fun perform :: "action \<Rightarrow> config_state \<Rightarrow> config_state" where
  "perform Add s = addQuestionSet s"
| "perform (Update i pv) s = updateQuestionSet i pv s"
| "perform (Remove i) s = removeQuestionSet i s"
| "perform (ChangeTarget v) s = change_total_marks v s"
| "perform Submit s = handleSubmit s"

fun run :: "action list \<Rightarrow> config_state \<Rightarrow> config_state" where
  "run [] s = s"
| "run (a # as) s = run as (perform a s)"

text \<open>A page with every element present, session \<^verbatim>\<open>abc\<close> and target 100, for examples.\<close>

definition example_page :: config_state where
  "example_page =
     \<lparr>questionSets = [], totalMarks = Num 0, session_id = Some ''abc'',
      questionSetsContainer = True, totalMarksDisplay = True, loadingModal = True,
      progressBar = True, total_marks = ''100'', display_text = Num 0,
      display_class = [], loading_shown = False, generateProgress = 0,
      progressIntervals = [], navigation = None, notifications = [], requests = []\<rparr>"

subsection \<open>What can happen on the page\<close>

text \<open>
  One step of the page: a tick of the interval of some call whose interval is set, for any
  value \<^verbatim>\<open>Math.random()\<close> can return; the settling of the request of some call that is
  still outstanding, with any outcome; or a user action, a further submission among them
  (nothing disables the form while a request is outstanding).
\<close>

inductive generate_step :: "config_state \<Rightarrow> config_state \<Rightarrow> bool" where
  tick: "k < length (progressIntervals s) \<Longrightarrow> running (progressIntervals s ! k) \<Longrightarrow>
         0 \<le> r \<Longrightarrow> r < 1 \<Longrightarrow> generate_step s (handleSubmit_tick k r s)"
| settle: "k < length (progressIntervals s) \<Longrightarrow> running (progressIntervals s ! k) \<Longrightarrow>
         generate_step s (handleSubmit_response k res s)"
| act: "generate_step s (perform a s)"

subsection \<open>The total as the specification words it\<close>

definition subtotal :: "question_set \<Rightarrow> jsnum" where
  "subtotal q = jmul (set_marks q) (set_count q)"

fun sum_of_subtotals :: "question_set list \<Rightarrow> jsnum" where
  "sum_of_subtotals [] = Num 0"
| "sum_of_subtotals (q # qs) = jadd (subtotal q) (sum_of_subtotals qs)"

text \<open>The invariant: the stored total is the one \<^verbatim>\<open>reduce\<close> computes from the list.\<close>

definition total_current :: "config_state \<Rightarrow> bool" where
  "total_current s = (totalMarks s = computeTotal (questionSets s))"

subsection \<open>The serialized configuration as the specification words it\<close>

definition question_set_document :: "question_set \<Rightarrow> string" where
  "question_set_document q =
     ''{\"type\":'' @ quote (set_type q) @ '',\"marks\":'' @ json_number (set_marks q) @
     '',\"count\":'' @ json_number (set_count q) @ ''}''"

definition question_config_document :: "question_set list \<Rightarrow> string" where
  "question_config_document qs =
     ''{\"question_sets\":['' @ join '','' (map question_set_document qs) @ '']}''"

section \<open>Upload page (\<^verbatim>\<open>upload.js\<close>)\<close>

subsection \<open>State\<close>

record selected_file =
  file_name :: string
  file_size :: nat
  file_type :: string

text \<open>
  The state is the module variable \<^verbatim>\<open>selectedFiles\<close>, the parts of the page that the
  functions write (the button, the progress container, bar and text), the progress
  simulations of the calls of \<^verbatim>\<open>uploadFiles\<close>, the pending redirect, the notifications shown
  and the uploads sent (each with the files of its form data). The preview list is
  rendered from \<^verbatim>\<open>selectedFiles\<close> alone and is left out.
\<close>

record upload_state =
  selectedFiles :: "selected_file list"
  uploadBtn_disabled :: bool
  uploadProgress_hidden :: bool
  progressBar_width :: real
  progressText :: string
  upload_progressIntervals :: "simulation list"
  upload_navigation :: "(nat \<times> string option) option"
  upload_notifications :: "(string \<times> kind) list"
  uploads :: "selected_file list list"

subsection \<open>Selection\<close>

definition updateUploadButton :: "upload_state \<Rightarrow> upload_state" where
  "updateUploadButton s = s\<lparr>uploadBtn_disabled := (length (selectedFiles s) = 0)\<rparr>"

definition handleFiles :: "selected_file list \<Rightarrow> upload_state \<Rightarrow> upload_state" where
  "handleFiles files s = updateUploadButton (s\<lparr>selectedFiles := files\<rparr>)"

text \<open>
  \<^verbatim>\<open>Array.prototype.splice(start, deleteCount)\<close> with nothing inserted: a negative start
  counts from the end and is clamped at the first position, a start beyond the end is
  clamped at the length, and no more elements are deleted than there are from the start.
\<close>

definition splice :: "int \<Rightarrow> int \<Rightarrow> 'a list \<Rightarrow> 'a list" where
  "splice start deleteCount xs =
     (let len = int (length xs);
          actualStart = (if start < 0 then max (len + start) 0 else min start len);
          actualDeleteCount = min (max deleteCount 0) (len - actualStart)
      in take (nat actualStart) xs @ drop (nat (actualStart + actualDeleteCount)) xs)"

definition removeFile :: "int \<Rightarrow> upload_state \<Rightarrow> upload_state" where
  "removeFile index s = updateUploadButton (s\<lparr>selectedFiles := splice index 1 (selectedFiles s)\<rparr>)"

subsection \<open>Upload\<close>

definition uploadFiles :: "upload_state \<Rightarrow> upload_state" where
  "uploadFiles s =
     (if length (selectedFiles s) = 0 then s
      else s\<lparr>uploads := uploads s @ [selectedFiles s],
             uploadProgress_hidden := False,
             uploadBtn_disabled := True,
             upload_progressIntervals := upload_progressIntervals s @ [setInterval 500]\<rparr>)"

definition uploadFiles_tick :: "nat \<Rightarrow> real \<Rightarrow> upload_state \<Rightarrow> upload_state" where
  "uploadFiles_tick k r s =
     (if k < length (upload_progressIntervals s) \<and> running (upload_progressIntervals s ! k) then
        let sim = upload_progressIntervals s ! k;
            p = progress sim + r * 15;
            p' = (if p > 90 then 90 else p)
        in s\<lparr>upload_progressIntervals :=
               (upload_progressIntervals s)
                 [k := sim\<lparr>progress := p', elapsed := elapsed sim + delay sim\<rparr>],
             progressBar_width := p'\<rparr>
      else s)"

definition uploadFiles_catch :: "nat \<Rightarrow> string \<Rightarrow> upload_state \<Rightarrow> upload_state" where
  "uploadFiles_catch k error_message s =
     s\<lparr>upload_progressIntervals := clearInterval k (upload_progressIntervals s),
       upload_notifications :=
         upload_notifications s @ [(''Upload failed: '' @ error_message, KError)],
       uploadProgress_hidden := True,
       uploadBtn_disabled := False\<rparr>"

definition uploadFiles_then :: "nat \<Rightarrow> string + data \<Rightarrow> upload_state \<Rightarrow> upload_state" where
  "uploadFiles_then k parsed s =
     (let s1 = s\<lparr>upload_progressIntervals := clearInterval k (upload_progressIntervals s),
                 progressBar_width := 100\<rparr>
      in case parsed of
           Inl error_message \<Rightarrow> uploadFiles_catch k error_message s1
         | Inr d \<Rightarrow>
             if status d = Some ''success'' then
               s1\<lparr>progressText := ''Processing complete!'',
                   upload_notifications :=
                     upload_notifications s1 @ [(''Files uploaded successfully!'', KSuccess)],
                   upload_navigation := Some (1000, redirect d)\<rparr>
             else uploadFiles_catch k (or_else (message d) ''Upload failed'') s1)"

definition uploadFiles_response :: "nat \<Rightarrow> fetch_result \<Rightarrow> upload_state \<Rightarrow> upload_state" where
  \<comment> \<open>\<^verbatim>\<open>.then(response => response.json())\<close>: the status code is not looked at\<close>
  "uploadFiles_response k res s =
     (case res of
        Rejected error_message \<Rightarrow> uploadFiles_catch k error_message s
      | Response code statusText b \<Rightarrow>
          (case b of
             NotJson error_message \<Rightarrow> uploadFiles_catch k error_message s
           | JsonNull error_message \<Rightarrow> uploadFiles_then k (Inl error_message) s
           | Json d \<Rightarrow> uploadFiles_then k (Inr d) s))"

text \<open>
  One step of the upload page: a tick of the interval of some call whose interval is set;
  the settling of the request of some call that is still outstanding; a new selection;
  the removal of a file; or a click on the upload button, which the browser delivers
  only while the button is enabled. \<^verbatim>\<open>handleFiles\<close> and \<^verbatim>\<open>removeFile\<close> enable the button
  again whenever files are selected, also while a request is outstanding.
\<close>

inductive upload_step :: "upload_state \<Rightarrow> upload_state \<Rightarrow> bool" where
  tick: "k < length (upload_progressIntervals s) \<Longrightarrow> running (upload_progressIntervals s ! k) \<Longrightarrow>
         0 \<le> r \<Longrightarrow> r < 1 \<Longrightarrow> upload_step s (uploadFiles_tick k r s)"
| settle: "k < length (upload_progressIntervals s) \<Longrightarrow> running (upload_progressIntervals s ! k) \<Longrightarrow>
         upload_step s (uploadFiles_response k res s)"
| pick: "upload_step s (handleFiles files s)"
| remove: "upload_step s (removeFile index s)"
| click: "\<not> uploadBtn_disabled s \<Longrightarrow> upload_step s (uploadFiles s)"

text \<open>An upload page with two files picked, for examples.\<close>

definition example_files :: "selected_file list" where
  "example_files =
     [\<lparr>file_name = ''a.pdf'', file_size = 1024, file_type = ''application/pdf''\<rparr>,
      \<lparr>file_name = ''b.png'', file_size = 2048, file_type = ''image/png''\<rparr>]"

definition example_upload :: upload_state where
  "example_upload =
     handleFiles example_files
       \<lparr>selectedFiles = [], uploadBtn_disabled = True, uploadProgress_hidden = True,
        progressBar_width = 0, progressText = [], upload_progressIntervals = [],
        upload_navigation = None, upload_notifications = [], uploads = []\<rparr>"

subsection \<open>Outcomes of a request\<close>

fun body_parsed :: "fetch_result \<Rightarrow> bool" where
  "body_parsed (Rejected _) = False"
| "body_parsed (Response _ _ (NotJson _)) = False"
| "body_parsed (Response _ _ _) = True"

fun response_ok :: "fetch_result \<Rightarrow> bool" where
  "response_ok (Rejected _) = False"
| "response_ok (Response code _ _) = ok code"

subsection \<open>Example states\<close>

text \<open>
  The configuration page after the count field of its only question set was cleared:
  the change handler runs with the empty value.
\<close>

definition example_cleared_count :: config_state where
  "example_cleared_count = onchange_count 0 [] (DOMContentLoaded example_page)"

text \<open>The configuration page with target 5, submitted with its default question set.\<close>

definition example_submitted :: config_state where
  "example_submitted = handleSubmit (change_total_marks ''5'' (DOMContentLoaded example_page))"

definition example_uploading :: upload_state where
  "example_uploading = uploadFiles example_upload"

text \<open>
  Two requests outstanding on each page: the form submitted twice, and an upload started
  again after \<^verbatim>\<open>removeFile\<close>, with an index beyond the selection, enabled the button.
\<close>

definition example_submitted_twice :: config_state where
  "example_submitted_twice = handleSubmit example_submitted"

definition example_uploading_twice :: upload_state where
  "example_uploading_twice = uploadFiles (removeFile 5 example_uploading)"

text \<open>A response with status 500 whose body declares success.\<close>

definition success_with_status_500 :: fetch_result where
  "success_with_status_500 =
     Response 500 ''Internal Server Error''
       (Json \<lparr>status = Some ''success'', message = None, redirect = Some ''/configure/abc''\<rparr>)"

section \<open>Evaluation of the examples\<close>

lemma digits: "show_int 1 = ''1''" "show_int 4 = ''4''" "show_int 5 = ''5''" "show_nat 500 = ''500''"
  by code_simp+

lemma parseInt_examples:
  "parseInt [] = NaN"
  "parseInt ''4'' = Num 4"
  "parseInt ''5'' = Num 5"
  "parseInt ''20'' = Num 20"
  "parseInt ''100'' = Num 100"
  by (simp_all add: parseInt_def is_space_def is_digit_def digit_value_def)

lemmas config_defs =
  DOMContentLoaded_def example_page_def addQuestionSet_def updateQuestionSet_def
  removeQuestionSet_def change_total_marks_def updateTotalMarks_def
  updateMarksValidation_def computeTotal_def tolerance_ok_def tolerance_exceeded_def
  showNotification_def parseInt_examples Let_def

lemma quote_keys:
  "quote ''type'' = ''\"type\"''"
  "quote ''marks'' = ''\"marks\"''"
  "quote ''count'' = ''\"count\"''"
  "quote ''question_sets'' = ''\"question_sets\"''"
  "quote ''short'' = ''\"short\"''"
  by (simp_all add: quote_def escape_char_def)

lemma example_loaded:
  "DOMContentLoaded example_page =
     \<lparr>questionSets = [\<lparr>set_id = 0, set_type = ''short'', set_marks = Num 5, set_count = Num 1\<rparr>],
      totalMarks = Num 5, session_id = Some ''abc'',
      questionSetsContainer = True, totalMarksDisplay = True, loadingModal = True,
      progressBar = True, total_marks = ''100'', display_text = Num 5,
      display_class = ''text-red-600 font-bold'', loading_shown = False, generateProgress = 0,
      progressIntervals = [], navigation = None, notifications = [],
      requests = []\<rparr>"
  by (simp add: config_defs)

lemma example_cleared_count_eq:
  "example_cleared_count =
     \<lparr>questionSets = [\<lparr>set_id = 0, set_type = ''short'', set_marks = Num 5, set_count = NaN\<rparr>],
      totalMarks = NaN, session_id = Some ''abc'',
      questionSetsContainer = True, totalMarksDisplay = True, loadingModal = True,
      progressBar = True, total_marks = ''100'', display_text = NaN,
      display_class = ''text-red-600 font-bold'', loading_shown = False, generateProgress = 0,
      progressIntervals = [], navigation = None, notifications = [],
      requests = []\<rparr>"
  by (simp add: example_cleared_count_def onchange_count_def example_loaded updateQuestionSet_def
      updateTotalMarks_def updateMarksValidation_def computeTotal_def tolerance_ok_def
      parseInt_examples Let_def)

lemma example_upload_eq:
  "example_upload =
     \<lparr>selectedFiles = example_files, uploadBtn_disabled = False, uploadProgress_hidden = True,
      progressBar_width = 0, progressText = [], upload_progressIntervals = [],
      upload_navigation = None, upload_notifications = [], uploads = []\<rparr>"
  by (simp add: example_upload_def handleFiles_def updateUploadButton_def example_files_def)

lemma example_uploading_eq:
  "example_uploading =
     \<lparr>selectedFiles = example_files, uploadBtn_disabled = True, uploadProgress_hidden = False,
      progressBar_width = 0, progressText = [],
      upload_progressIntervals = [\<lparr>progress = 0, running = True, delay = 500, elapsed = 0\<rparr>],
      upload_navigation = None, upload_notifications = [], uploads = [example_files]\<rparr>"
  by (simp add: example_uploading_def example_upload_eq uploadFiles_def setInterval_def)
     (simp add: example_files_def)

section \<open>The running total\<close>

lemma jadd_zero_right: "jadd a (Num 0) = a"
  by (cases a) simp_all

lemma jadd_zero_left: "jadd (Num 0) a = a"
  by (cases a) simp_all

lemma jadd_assoc: "jadd (jadd a b) c = jadd a (jadd b c)"
  by (cases a; cases b; cases c) simp_all

text \<open>The left fold of \<^verbatim>\<open>reduce\<close>, started at any accumulator.\<close>

lemma reduce_from:
  "foldl (\<lambda>sum set. jadd sum (jmul (set_marks set) (set_count set))) a qs =
   jadd a (sum_of_subtotals qs)"
  by (induction qs arbitrary: a) (simp_all add: jadd_zero_right jadd_assoc subtotal_def)

lemma computeTotal_sum: "computeTotal qs = sum_of_subtotals qs"
proof -
  have "computeTotal qs = jadd (Num 0) (sum_of_subtotals qs)"
    unfolding computeTotal_def by (rule reduce_from)
  then show ?thesis
    by (simp add: jadd_zero_left)
qed

text \<open>When no field is \<^verbatim>\<open>NaN\<close>, the sum is the integer sum of the products.\<close>

lemma sum_of_subtotals_numeric:
  "map set_marks qs = map Num ms \<Longrightarrow> map set_count qs = map Num cs \<Longrightarrow>
   sum_of_subtotals qs = Num (\<Sum>(m, c)\<leftarrow>zip ms cs. m * c)"
proof (induction qs arbitrary: ms cs)
  case Nil
  then show ?case by simp
next
  case (Cons q qs)
  then obtain m ms' c cs' where "ms = m # ms'" "cs = c # cs'"
    by (cases ms; cases cs) auto
  with Cons show ?case
    by (simp add: subtotal_def)
qed

lemma questionSets_updateTotalMarks [simp]:
  "questionSets (updateTotalMarks s) = questionSets s"
  by (simp add: updateTotalMarks_def updateMarksValidation_def Let_def)

lemma questionSetsContainer_updateTotalMarks [simp]:
  "questionSetsContainer (updateTotalMarks s) = questionSetsContainer s"
  by (simp add: updateTotalMarks_def updateMarksValidation_def Let_def)

lemma totalMarks_updateTotalMarks [simp]:
  "totalMarks (updateTotalMarks s) = computeTotal (questionSets s)"
  by (simp add: updateTotalMarks_def updateMarksValidation_def Let_def)

lemma total_current_perform: "total_current s \<Longrightarrow> total_current (perform a s)"
  by (cases a)
     (auto simp: total_current_def addQuestionSet_def updateQuestionSet_def
        removeQuestionSet_def change_total_marks_def handleSubmit_def showNotification_def
        updateMarksValidation_def Let_def
        split: option.splits)

lemma total_current_run: "total_current s \<Longrightarrow> total_current (run acts s)"
  by (induction acts arbitrary: s) (simp_all add: total_current_perform)

lemma total_current_loaded: "total_current (DOMContentLoaded page)"
  by (simp add: total_current_def DOMContentLoaded_def addQuestionSet_def computeTotal_def)

lemma mutation_recomputes:
  "questionSets (perform a s) \<noteq> questionSets s \<Longrightarrow>
   totalMarks (perform a s) = computeTotal (questionSets (perform a s))"
  by (cases a)
     (auto simp: addQuestionSet_def updateQuestionSet_def removeQuestionSet_def
        change_total_marks_def handleSubmit_def showNotification_def
        updateMarksValidation_def Let_def
        split: option.splits if_splits)

text \<open>
  Claim C2. After the page has loaded and after any sequence of user actions (adding,
  updating and removing question sets, also changing the target and submitting), the
  running total \<^verbatim>\<open>totalMarks\<close> is the sum, over exactly the question sets now in the list,
  of marks times count. Moreover every action that changes the list, from any state,
  leaves the total recomputed from the new list. The sum is the one of JavaScript
  numbers, so it is \<^verbatim>\<open>NaN\<close> as soon as one field is. The claim asks this of sequences that
  leave at least one set; it holds of all.
\<close>

theorem totalMarks_is_sum_of_live_sets:
  "totalMarks (run acts (DOMContentLoaded page)) =
     sum_of_subtotals (questionSets (run acts (DOMContentLoaded page)))
   \<and> (questionSets (perform a s) \<noteq> questionSets s \<longrightarrow>
        totalMarks (perform a s) = sum_of_subtotals (questionSets (perform a s)))"
proof (intro conjI impI)
  have "total_current (run acts (DOMContentLoaded page))"
    by (rule total_current_run) (rule total_current_loaded)
  then show "totalMarks (run acts (DOMContentLoaded page)) =
      sum_of_subtotals (questionSets (run acts (DOMContentLoaded page)))"
    by (simp add: total_current_def computeTotal_sum)
next
  assume "questionSets (perform a s) \<noteq> questionSets s"
  then show "totalMarks (perform a s) = sum_of_subtotals (questionSets (perform a s))"
    by (simp add: mutation_recomputes computeTotal_sum)
qed

theorem totalMarks_is_sum_of_live_sets_witness:
  "questionSets (perform (Update 0 (Count (Num 4))) (DOMContentLoaded example_page)) \<noteq>
     questionSets (DOMContentLoaded example_page)
   \<and> totalMarks (perform (Update 0 (Count (Num 4))) (DOMContentLoaded example_page)) = Num 20
   \<and> totalMarks (run [Add, Update 1 (Marks (Num 10)), Remove 0] (DOMContentLoaded example_page)) =
       Num 10"
proof -
  have sets: "questionSets (perform (Update 0 (Count (Num 4))) (DOMContentLoaded example_page)) =
      [\<lparr>set_id = 0, set_type = ''short'', set_marks = Num 5, set_count = Num 4\<rparr>]"
    by (simp add: example_loaded updateQuestionSet_def)
  have changed: "questionSets (perform (Update 0 (Count (Num 4))) (DOMContentLoaded example_page)) \<noteq>
      questionSets (DOMContentLoaded example_page)"
    unfolding sets by (simp add: example_loaded)
  have after: "questionSets (run [Add, Update 1 (Marks (Num 10)), Remove 0] (DOMContentLoaded example_page)) =
      [\<lparr>set_id = 1, set_type = ''short'', set_marks = Num 10, set_count = Num 1\<rparr>]"
    by (simp add: example_loaded addQuestionSet_def updateQuestionSet_def removeQuestionSet_def)
  from totalMarks_is_sum_of_live_sets
    [of "[Add, Update 1 (Marks (Num 10)), Remove 0]" example_page "Update 0 (Count (Num 4))"
        "DOMContentLoaded example_page"]
    changed
  show ?thesis
    unfolding sets after by (simp add: subtotal_def)
qed

section \<open>The tolerance check\<close>

text \<open>On numbers, the two comparisons are one predicate and its negation.\<close>

lemma tolerance_numeric:
  "tolerance_ok (Num t) (Num g) \<longleftrightarrow> \<bar>t - g\<bar> \<le> 5"
  "tolerance_exceeded (Num t) (Num g) \<longleftrightarrow> \<not> tolerance_ok (Num t) (Num g)"
  by (auto simp: tolerance_ok_def tolerance_exceeded_def)

lemma tolerance_boundary:
  "tolerance_ok (Num (g + 5)) (Num g)"
  "tolerance_ok (Num (g - 5)) (Num g)"
  "\<not> tolerance_ok (Num (g + 6)) (Num g)"
  "\<not> tolerance_ok (Num (g - 6)) (Num g)"
  by (simp_all add: tolerance_ok_def)

text \<open>On \<^verbatim>\<open>NaN\<close>, both comparisons are false.\<close>

lemma tolerance_NaN:
  "\<not> tolerance_ok NaN g" "\<not> tolerance_exceeded NaN g"
  "\<not> tolerance_ok t NaN" "\<not> tolerance_exceeded t NaN"
  by (cases g; cases t; simp add: tolerance_ok_def tolerance_exceeded_def)+

lemma indicator_numeric:
  "totalMarksDisplay s \<Longrightarrow> totalMarks s = Num t \<Longrightarrow> parseInt (total_marks s) = Num g \<Longrightarrow>
   display_class (updateMarksValidation s) =
     (if \<bar>t - g\<bar> \<le> 5 then ''text-green-600 font-bold'' else ''text-red-600 font-bold'')"
  by (simp add: updateMarksValidation_def tolerance_ok_def)

lemma quote_question_set: 
  "stringify (JObject [(''type'', JString (set_type q)), (''marks'', JNumber (set_marks q)),
                       (''count'', JNumber (set_count q))]) = question_set_document q"
  by (simp add: quote_keys question_set_document_def)

lemma stringify_questionConfig: "stringify (questionConfig qs) = question_config_document qs"
proof -
  have each: "map stringify
      (map (\<lambda>set. JObject [(''type'', JString (set_type set)), (''marks'', JNumber (set_marks set)),
                             (''count'', JNumber (set_count set))]) qs) =
      map question_set_document qs"
    by (induction qs) (simp_all add: quote_question_set del: stringify.simps)
  show ?thesis
    unfolding questionConfig_def question_config_document_def
    by (simp add: each quote_keys del: map_map)
qed

text \<open>
  With a numeric total and a numeric target, \<^verbatim>\<open>handleSubmit\<close> checks the session, then the
  list, then the tolerance, stops at the first check that fails with that check's
  notification and no request, and sends the request when all three pass.
\<close>

lemma handleSubmit_numeric:
  assumes "totalMarks s = Num t" "parseInt (total_marks s) = Num g"
  shows "handleSubmit s =
    (if session_id s = None \<or> session_id s = Some [] then
       showNotification ''Session expired. Please start over.'' KError s
     else if questionSets s = [] then
       showNotification ''Please add at least one question set.'' KError s
     else if \<not> \<bar>t - g\<bar> \<le> 5 then
       showNotification
         (''Total marks ('' @ show_int t @ '') should be close to target marks ('' @
          show_int g @ '').'') KError s
     else
       s\<lparr>requests := requests s @
              [\<lparr>url = ''/generate/'' @ the (session_id s),
                question_config = question_config_document (questionSets s)\<rparr>],
          loading_shown := (loadingModal s \<or> loading_shown s),
          progressIntervals := progressIntervals s @ [setInterval 1000]\<rparr>)"
  using assms
  by (auto simp: handleSubmit_def tolerance_exceeded_def stringify_questionConfig Let_def
      split: option.splits)

lemma handleSubmit_abort:
  "session_id s = None \<or> session_id s = Some [] \<or> questionSets s = [] \<or>
     tolerance_exceeded (totalMarks s) (parseInt (total_marks s)) \<Longrightarrow>
   requests (handleSubmit s) = requests s \<and>
   length (notifications (handleSubmit s)) = Suc (length (notifications s))"
  by (auto simp: handleSubmit_def showNotification_def Let_def split: option.splits)

text \<open>
  With ten questions of 5 marks and the target 100, the submission is rejected with a
  message that cites 50 and 100, and nothing is sent.
\<close>

lemma handleSubmit_cites_both:
  "handleSubmit (onchange_count 0 ''10'' (DOMContentLoaded example_page)) =
     showNotification ''Total marks (50) should be close to target marks (100).'' KError
       (onchange_count 0 ''10'' (DOMContentLoaded example_page))"
proof -
  have ten: "parseInt ''10'' = Num 10"
    by (simp add: parseInt_def is_space_def is_digit_def digit_value_def)
  have shown: "show_int 50 = ''50''" "show_int 100 = ''100''"
    by code_simp+
  show ?thesis
    by (simp add: onchange_count_def ten example_loaded updateQuestionSet_def
        updateTotalMarks_def updateMarksValidation_def computeTotal_def tolerance_ok_def
        handleSubmit_def tolerance_exceeded_def parseInt_examples shown Let_def)
qed

text \<open>
  Claim C1. \<^verbatim>\<open>handleSubmit\<close> is to stop, with a notification and without a request, at the
  first of its three preconditions that does not hold. With a numeric total and target
  it does (\<open>handleSubmit_numeric\<close>). At the state below, reached by clearing the count
  field of the only question set, the session is present and there is one question set,
  but the total is \<^verbatim>\<open>NaN\<close>, so the third precondition, that the total is within 5 of the
  target 100, does not hold. The code tests \<^verbatim>\<open>Math.abs(totalMarks - targetMarks) > 5\<close>,
  which is false as well: no notification is shown and the request is sent, with
  \<^verbatim>\<open>null\<close> for the count.
\<close>

theorem handleSubmit_sends_NaN_total:
  "session_id example_cleared_count = Some ''abc''
   \<and> length (questionSets example_cleared_count) = 1
   \<and> totalMarks example_cleared_count = NaN
   \<and> parseInt (total_marks example_cleared_count) = Num 100
   \<and> \<not> tolerance_ok (totalMarks example_cleared_count)
         (parseInt (total_marks example_cleared_count))
   \<and> notifications (handleSubmit example_cleared_count) = []
   \<and> requests (handleSubmit example_cleared_count) =
       [\<lparr>url = ''/generate/abc'',
         question_config = ''{\"question_sets\":[{\"type\":\"short\",\"marks\":5,\"count\":null}]}''\<rparr>]"
  by (simp add: example_cleared_count_eq handleSubmit_def tolerance_ok_def
      tolerance_exceeded_def stringify_questionConfig question_config_document_def
      question_set_document_def digits quote_keys parseInt_examples)

text \<open>
  Claim C3. One predicate, \<open>|total - target| \<le> 5\<close>, is to drive the indicator and to gate
  submission. The code writes it twice, as \<^verbatim>\<open><= 5\<close> for the indicator and as \<^verbatim>\<open>> 5\<close> for
  the rejection. On numbers the two are complementary and the tolerance is exact
  (\<open>tolerance_numeric\<close>, \<open>tolerance_boundary\<close>). They are not on \<^verbatim>\<open>NaN\<close>: at the state
  below, reached by clearing the count field, the indicator shows failure (the red class)
  and the predicate is false, yet the submission is not rejected.
\<close>

theorem indicator_fails_submission_passes:
  "display_class example_cleared_count = ''text-red-600 font-bold''
   \<and> display_class (updateMarksValidation example_cleared_count) = ''text-red-600 font-bold''
   \<and> \<not> tolerance_ok (totalMarks example_cleared_count)
         (parseInt (total_marks example_cleared_count))
   \<and> length (requests (handleSubmit example_cleared_count)) = 1
   \<and> notifications (handleSubmit example_cleared_count) = []"
  by (simp add: example_cleared_count_eq handleSubmit_def updateMarksValidation_def
      tolerance_ok_def tolerance_exceeded_def parseInt_examples)

section \<open>Removing and identifying question sets\<close>

text \<open>
  Claim C4. When exactly one question set remains, \<^verbatim>\<open>removeQuestionSet\<close> is rejected: an
  error notification is shown, and the list of question sets, so also its length, is what
  it was. Nothing else of the state changes either.
\<close>

theorem removeQuestionSet_sole_rejected:
  "length (questionSets s) = 1 \<Longrightarrow>
     removeQuestionSet i s = showNotification ''At least one question set is required.'' KError s
     \<and> questionSets (removeQuestionSet i s) = questionSets s
     \<and> length (questionSets (removeQuestionSet i s)) = 1
     \<and> notifications (removeQuestionSet i s) =
         notifications s @ [(''At least one question set is required.'', KError)]"
  by (simp add: removeQuestionSet_def showNotification_def)

theorem removeQuestionSet_sole_rejected_witness:
  "length (questionSets (DOMContentLoaded example_page)) = 1
   \<and> questionSets (removeQuestionSet 0 (DOMContentLoaded example_page)) =
       [\<lparr>set_id = 0, set_type = ''short'', set_marks = Num 5, set_count = Num 1\<rparr>]
   \<and> notifications (removeQuestionSet 0 (DOMContentLoaded example_page)) =
       [(''At least one question set is required.'', KError)]"
proof -
  have one: "length (questionSets (DOMContentLoaded example_page)) = 1"
    by (simp add: example_loaded)
  from removeQuestionSet_sole_rejected [OF one, of 0] one
  show ?thesis
    by (simp add: example_loaded showNotification_def)
qed

text \<open>
  Claim C5. Identifiers are to be stable and never reused, and \<^verbatim>\<open>updateQuestionSet\<close> is to
  change the set that has the given id. The code takes the id from the length of the list
  and \<^verbatim>\<open>updateQuestionSet\<close> reads \<^verbatim>\<open>questionSets[setIndex]\<close>, a position. After three sets
  (ids 0, 1, 2) and the removal of the first, the sets with ids 1 and 2 are at positions 0
  and 1: the change handler of the set with id 1 then changes the set with id 2, the one
  of the set with id 2 changes nothing, and the next set added gets the id 2 again.
\<close>

theorem updateQuestionSet_uses_position:
  "map (\<lambda>q. (set_id q, set_count q))
      (questionSets (run [Add, Add, Remove 0] (DOMContentLoaded example_page))) =
     [(1, Num 1), (2, Num 1)]
   \<and> map (\<lambda>q. (set_id q, set_count q))
      (questionSets (run [Add, Add, Remove 0, Update 1 (Count (Num 4))]
         (DOMContentLoaded example_page))) =
     [(1, Num 1), (2, Num 4)]
   \<and> map (\<lambda>q. (set_id q, set_count q))
      (questionSets (run [Add, Add, Remove 0, Update 2 (Count (Num 4))]
         (DOMContentLoaded example_page))) =
     [(1, Num 1), (2, Num 1)]
   \<and> map set_id (questionSets (run [Add, Add, Remove 0, Add] (DOMContentLoaded example_page))) =
     [1, 2, 2]"
  by (simp add: example_loaded addQuestionSet_def removeQuestionSet_def updateQuestionSet_def)

text \<open>
  Claim C6. With more than one set in the list, \<^verbatim>\<open>removeQuestionSet\<close> keeps exactly the sets
  whose id differs from its argument, so it removes every set with that id. Two sets with
  one id are reachable on any page that has the container: after a second set is added
  and the first removed, the next set added takes the id 1 that the remaining set has.
  One call of \<^verbatim>\<open>removeQuestionSet\<close> then removes both and leaves the list empty.
\<close>

theorem removeQuestionSet_removes_every_match:
  "(1 < length (questionSets s) \<longrightarrow>
      questionSets (removeQuestionSet i s) = filter (\<lambda>q. set_id q \<noteq> i) (questionSets s)
      \<and> i \<notin> set_id ` set (questionSets (removeQuestionSet i s))
      \<and> length (questionSets (removeQuestionSet i s)) + length (filter (\<lambda>q. set_id q = i) (questionSets s)) =
          length (questionSets s))
   \<and> (questionSetsContainer page \<longrightarrow>
      map set_id (questionSets (run [Add, Remove 0, Add] (DOMContentLoaded page))) = [1, 1]
      \<and> questionSets (run [Add, Remove 0, Add, Remove 1] (DOMContentLoaded page)) = [])"
proof (intro conjI impI)
  assume more: "1 < length (questionSets s)"
  then show kept: "questionSets (removeQuestionSet i s) =
      filter (\<lambda>q. set_id q \<noteq> i) (questionSets s)"
    by (simp add: removeQuestionSet_def)
  show "i \<notin> set_id ` set (questionSets (removeQuestionSet i s))"
    unfolding kept by auto
  show "length (questionSets (removeQuestionSet i s)) +
      length (filter (\<lambda>q. set_id q = i) (questionSets s)) = length (questionSets s)"
    unfolding kept using sum_length_filter_compl [of "\<lambda>q. set_id q = i" "questionSets s"]
    by simp
next
  assume "questionSetsContainer page"
  then show "map set_id (questionSets (run [Add, Remove 0, Add] (DOMContentLoaded page))) = [1, 1]"
    by (simp add: DOMContentLoaded_def addQuestionSet_def removeQuestionSet_def)
next
  assume "questionSetsContainer page"
  then show "questionSets (run [Add, Remove 0, Add, Remove 1] (DOMContentLoaded page)) = []"
    by (simp add: DOMContentLoaded_def addQuestionSet_def removeQuestionSet_def)
qed

theorem removeQuestionSet_removes_every_match_witness:
  "1 < length (questionSets (run [Add, Remove 0, Add] (DOMContentLoaded example_page)))
   \<and> questionSetsContainer example_page
   \<and> length (filter (\<lambda>q. set_id q = 1)
        (questionSets (run [Add, Remove 0, Add] (DOMContentLoaded example_page)))) = 2
   \<and> questionSets (removeQuestionSet 1 (run [Add, Remove 0, Add] (DOMContentLoaded example_page))) = []"
proof -
  have sets: "questionSets (run [Add, Remove 0, Add] (DOMContentLoaded example_page)) =
      [\<lparr>set_id = 1, set_type = ''short'', set_marks = Num 5, set_count = Num 1\<rparr>,
       \<lparr>set_id = 1, set_type = ''short'', set_marks = Num 5, set_count = Num 1\<rparr>]"
    by (simp add: example_loaded addQuestionSet_def removeQuestionSet_def)
  have container: "questionSetsContainer example_page"
    by (simp add: example_page_def)
  from removeQuestionSet_removes_every_match
    [of "run [Add, Remove 0, Add] (DOMContentLoaded example_page)" 1 example_page]
    container
  show ?thesis
    unfolding sets by simp
qed

section \<open>The serialized configuration\<close>

lemma question_config_document_fields:
  assumes "map set_type qs = map set_type qs'"
    and "map set_marks qs = map set_marks qs'"
    and "map set_count qs = map set_count qs'"
  shows "question_config_document qs = question_config_document qs'"
proof -
  have "length qs = length qs'"
    using assms(1) by (rule map_eq_imp_length_eq)
  then have "map question_set_document qs = map question_set_document qs'"
    using assms
    by (induction qs qs' rule: list_induct2) (simp_all add: question_set_document_def)
  then show ?thesis
    by (simp add: question_config_document_def)
qed

lemma single_document:
  "question_config_document
     [\<lparr>set_id = i, set_type = ''short'', set_marks = Num 5, set_count = Num 4\<rparr>] =
   ''{\"question_sets\":[{\"type\":\"short\",\"marks\":5,\"count\":4}]}''"
  by (simp add: question_config_document_def question_set_document_def digits quote_keys)

text \<open>
  Claim C7. When the three checks of \<^verbatim>\<open>handleSubmit\<close> pass, the request it sends goes to
  the address of the session and its \<^verbatim>\<open>question_config\<close> is the document
  \<^verbatim>\<open>{"question_sets":[...]}\<close> with, for each question set of the list in order, the object
  of its type, marks and count, in this order and nothing else. The id is not in it: two
  lists that agree on types, marks and counts give the same document. For the single set
  (short, 5 marks, count 4), whatever its id, the field is
  \<^verbatim>\<open>{"question_sets":[{"type":"short","marks":5,"count":4}]}\<close>.
\<close>

theorem question_config_is_document:
  assumes "session_id s = Some sid" and "sid \<noteq> []" and "questionSets s \<noteq> []"
    and "\<not> tolerance_exceeded (totalMarks s) (parseInt (total_marks s))"
  shows "requests (handleSubmit s) =
       requests s @ [\<lparr>url = ''/generate/'' @ sid,
                      question_config = question_config_document (questionSets s)\<rparr>]
     \<and> (map set_type qs = map set_type (questionSets s) \<and>
        map set_marks qs = map set_marks (questionSets s) \<and>
        map set_count qs = map set_count (questionSets s) \<longrightarrow>
          question_config_document qs = question_config_document (questionSets s))
     \<and> (questionSets s =
          [\<lparr>set_id = i, set_type = ''short'', set_marks = Num 5, set_count = Num 4\<rparr>] \<longrightarrow>
          question_config (last (requests (handleSubmit s))) =
            ''{\"question_sets\":[{\"type\":\"short\",\"marks\":5,\"count\":4}]}'')"
proof -
  have sent: "requests (handleSubmit s) =
      requests s @ [\<lparr>url = ''/generate/'' @ sid,
                     question_config = question_config_document (questionSets s)\<rparr>]"
    using assms by (simp add: handleSubmit_def stringify_questionConfig Let_def)
  have fields: "map set_type qs = map set_type (questionSets s) \<and>
        map set_marks qs = map set_marks (questionSets s) \<and>
        map set_count qs = map set_count (questionSets s) \<longrightarrow>
          question_config_document qs = question_config_document (questionSets s)"
  proof
    assume "map set_type qs = map set_type (questionSets s) \<and>
        map set_marks qs = map set_marks (questionSets s) \<and>
        map set_count qs = map set_count (questionSets s)"
    then show "question_config_document qs = question_config_document (questionSets s)"
      by (intro question_config_document_fields) simp_all
  qed
  have single: "questionSets s =
          [\<lparr>set_id = i, set_type = ''short'', set_marks = Num 5, set_count = Num 4\<rparr>] \<longrightarrow>
          question_config (last (requests (handleSubmit s))) =
            ''{\"question_sets\":[{\"type\":\"short\",\"marks\":5,\"count\":4}]}''"
  proof
    assume one: "questionSets s =
          [\<lparr>set_id = i, set_type = ''short'', set_marks = Num 5, set_count = Num 4\<rparr>]"
    have "question_config (last (requests (handleSubmit s))) =
        question_config_document (questionSets s)"
      unfolding sent by simp
    then show "question_config (last (requests (handleSubmit s))) =
            ''{\"question_sets\":[{\"type\":\"short\",\"marks\":5,\"count\":4}]}''"
      unfolding one by (simp only: single_document)
  qed
  from sent fields single show ?thesis
    by (intro conjI)
qed

theorem question_config_is_document_witness:
  "session_id (run [Update 0 (Count (Num 4)), ChangeTarget ''20''] (DOMContentLoaded example_page)) =
     Some ''abc''
   \<and> totalMarks (run [Update 0 (Count (Num 4)), ChangeTarget ''20''] (DOMContentLoaded example_page)) =
     Num 20
   \<and> requests
       (handleSubmit
         (run [Update 0 (Count (Num 4)), ChangeTarget ''20''] (DOMContentLoaded example_page))) =
     [\<lparr>url = ''/generate/abc'',
       question_config = ''{\"question_sets\":[{\"type\":\"short\",\"marks\":5,\"count\":4}]}''\<rparr>]"
proof -
  have state: "run [Update 0 (Count (Num 4)), ChangeTarget ''20''] (DOMContentLoaded example_page) =
     \<lparr>questionSets = [\<lparr>set_id = 0, set_type = ''short'', set_marks = Num 5, set_count = Num 4\<rparr>],
      totalMarks = Num 20, session_id = Some ''abc'',
      questionSetsContainer = True, totalMarksDisplay = True, loadingModal = True,
      progressBar = True, total_marks = ''20'', display_text = Num 20,
      display_class = ''text-green-600 font-bold'', loading_shown = False, generateProgress = 0,
      progressIntervals = [], navigation = None, notifications = [],
      requests = []\<rparr>"
    by (simp add: example_loaded updateQuestionSet_def change_total_marks_def updateTotalMarks_def
        updateMarksValidation_def computeTotal_def tolerance_ok_def parseInt_examples Let_def)
  have pass: "\<not> tolerance_exceeded (Num 20) (parseInt ''20'')"
    by (simp add: tolerance_exceeded_def parseInt_examples)
  from question_config_is_document
    [of "run [Update 0 (Count (Num 4)), ChangeTarget ''20''] (DOMContentLoaded example_page)"
        "''abc''" "[]" 0]
    pass
  show ?thesis
    unfolding state
    by (simp add: question_config_document_def question_set_document_def digits quote_keys)
qed

section \<open>Responses\<close>

lemma example_submitted_eq:
  "example_submitted =
     \<lparr>questionSets = [\<lparr>set_id = 0, set_type = ''short'', set_marks = Num 5, set_count = Num 1\<rparr>],
      totalMarks = Num 5, session_id = Some ''abc'',
      questionSetsContainer = True, totalMarksDisplay = True, loadingModal = True,
      progressBar = True, total_marks = ''5'', display_text = Num 5,
      display_class = ''text-green-600 font-bold'', loading_shown = True, generateProgress = 0,
      progressIntervals = [\<lparr>progress = 0, running = True, delay = 1000, elapsed = 0\<rparr>],
      navigation = None, notifications = [],
      requests = [\<lparr>url = ''/generate/abc'',
        question_config = ''{\"question_sets\":[{\"type\":\"short\",\"marks\":5,\"count\":1}]}''\<rparr>]\<rparr>"
  by (simp add: example_submitted_def example_loaded change_total_marks_def
      updateMarksValidation_def handleSubmit_def tolerance_ok_def tolerance_exceeded_def
      stringify_questionConfig question_config_document_def question_set_document_def
      digits quote_keys parseInt_examples setInterval_def Let_def)

text \<open>
  The two response handlers agree on every response with a status from 200 to 299, on
  every rejection and on every body that is not JSON: success exactly when the parsed
  body has status \<^verbatim>\<open>success\<close>.
\<close>

lemma upload_success_path:
  "upload_navigation s = None \<Longrightarrow>
   (upload_navigation (uploadFiles_response k res s) \<noteq> None) =
     (\<exists>code text d. res = Response code text (Json d) \<and> status d = Some ''success'')"
  by (auto simp: uploadFiles_response_def uploadFiles_then_def uploadFiles_catch_def Let_def
      split: fetch_result.splits body.splits)

lemma generate_success_path:
  "navigation s = None \<Longrightarrow>
   (navigation (handleSubmit_response k res s) \<noteq> None) =
     (\<exists>code text d. res = Response code text (Json d) \<and> ok code \<and> status d = Some ''success'')"
  by (auto simp: handleSubmit_response_def handleSubmit_then_def handleSubmit_catch_def
      showNotification_def Let_def
      split: fetch_result.splits body.splits)

text \<open>
  Claim C8. A response whose status is not from 200 to 299 is to be a failure on the upload
  page too. \<^verbatim>\<open>uploadFiles\<close> passes the response to \<^verbatim>\<open>response.json()\<close> without looking at
  \<^verbatim>\<open>response.ok\<close>: on a response with status 500 whose body is
  \<^verbatim>\<open>{"status":"success","redirect":"/configure/abc"}\<close> it shows the success notification,
  schedules the redirect, leaves the progress shown and the button disabled. The handler
  of \<^verbatim>\<open>handleSubmit\<close>, which tests \<^verbatim>\<open>response.ok\<close>, treats the same response as a failure.
\<close>

theorem uploadFiles_ignores_http_status:
  "\<not> response_ok success_with_status_500
   \<and> upload_notifications (uploadFiles_response 0 success_with_status_500 example_uploading) =
       [(''Files uploaded successfully!'', KSuccess)]
   \<and> upload_navigation (uploadFiles_response 0 success_with_status_500 example_uploading) =
       Some (1000, Some ''/configure/abc'')
   \<and> progressText (uploadFiles_response 0 success_with_status_500 example_uploading) =
       ''Processing complete!''
   \<and> uploadBtn_disabled (uploadFiles_response 0 success_with_status_500 example_uploading)
   \<and> \<not> uploadProgress_hidden (uploadFiles_response 0 success_with_status_500 example_uploading)
   \<and> notifications (handleSubmit_response 0 success_with_status_500 example_submitted) =
       [(''Generation failed: HTTP 500: Internal Server Error'', KError)]
   \<and> navigation (handleSubmit_response 0 success_with_status_500 example_submitted) = None
   \<and> \<not> loading_shown (handleSubmit_response 0 success_with_status_500 example_submitted)"
  by (simp add: example_uploading_eq example_submitted_eq success_with_status_500_def
      uploadFiles_response_def uploadFiles_then_def handleSubmit_response_def
      handleSubmit_catch_def ok_def digits showNotification_def)

section \<open>Removing a file\<close>

lemma splice_beyond: "int (length xs) \<le> start \<Longrightarrow> splice start 1 xs = xs"
  by (simp add: splice_def Let_def)

lemma splice_in_range:
  "0 \<le> start \<Longrightarrow> start < int (length xs) \<Longrightarrow>
   splice start 1 xs = take (nat start) xs @ drop (Suc (nat start)) xs"
  by (auto simp: splice_def Let_def max_def min_def nat_add_distrib)

lemma splice_negative:
  "start < 0 \<Longrightarrow> xs \<noteq> [] \<Longrightarrow>
   splice start 1 xs =
     take (nat (max (int (length xs) + start) 0)) xs @
     drop (Suc (nat (max (int (length xs) + start) 0))) xs"
  by (auto simp: splice_def Let_def max_def min_def nat_add_distrib)

lemma splice_negative_length:
  "start < 0 \<Longrightarrow> xs \<noteq> [] \<Longrightarrow> length (splice start 1 xs) = length xs - 1"
  by (auto simp: splice_def Let_def max_def min_def)

text \<open>
  Claim C9, as stated, fails: \<^verbatim>\<open>removeFile\<close> with a negative index is not a no-op. With two
  files selected, \<^verbatim>\<open>removeFile(-1)\<close> removes the second and \<^verbatim>\<open>removeFile(-7)\<close> the first.
\<close>

theorem removeFile_negative_counterexample:
  "selectedFiles (removeFile (- 1) example_upload) =
     [\<lparr>file_name = ''a.pdf'', file_size = 1024, file_type = ''application/pdf''\<rparr>]
   \<and> selectedFiles (removeFile (- 1) example_upload) \<noteq> selectedFiles example_upload
   \<and> selectedFiles (removeFile (- 7) example_upload) =
     [\<lparr>file_name = ''b.png'', file_size = 2048, file_type = ''image/png''\<rparr>]"
  by (simp add: removeFile_def updateUploadButton_def example_upload_eq example_files_def
      splice_def)

text \<open>
  Claim C9, amended. For every selection and every index that is at least its length,
  \<^verbatim>\<open>removeFile\<close> leaves the selection as it was. A negative index counts from the end, as
  \<^verbatim>\<open>splice\<close> has it: on a selection that is not empty it removes one file, the one at
  position \<open>length + index\<close>, or the first when that is negative. No notification is shown
  for any index.
\<close>

theorem removeFile_out_of_range:
  "(int (length (selectedFiles s)) \<le> index \<longrightarrow>
      selectedFiles (removeFile index s) = selectedFiles s)
   \<and> (index < 0 \<and> selectedFiles s \<noteq> [] \<longrightarrow>
      selectedFiles (removeFile index s) =
        take (nat (max (int (length (selectedFiles s)) + index) 0)) (selectedFiles s) @
        drop (Suc (nat (max (int (length (selectedFiles s)) + index) 0))) (selectedFiles s)
      \<and> length (selectedFiles (removeFile index s)) = length (selectedFiles s) - 1)
   \<and> upload_notifications (removeFile index s) = upload_notifications s"
proof -
  have files: "selectedFiles (removeFile index s) = splice index 1 (selectedFiles s)"
    by (simp add: removeFile_def updateUploadButton_def)
  have quiet: "upload_notifications (removeFile index s) = upload_notifications s"
    by (simp add: removeFile_def updateUploadButton_def)
  show ?thesis
    unfolding files
    using splice_beyond [of "selectedFiles s" index] splice_negative [of index "selectedFiles s"]
      splice_negative_length [of index "selectedFiles s"] quiet
    by blast
qed

theorem removeFile_out_of_range_witness:
  "int (length (selectedFiles example_upload)) \<le> 2
   \<and> selectedFiles (removeFile 2 example_upload) = example_files
   \<and> (- 1 :: int) < 0 \<and> selectedFiles example_upload \<noteq> []
   \<and> length (selectedFiles (removeFile (- 1) example_upload)) = 1
   \<and> upload_notifications (removeFile 2 example_upload) = []"
proof -
  have sel: "selectedFiles example_upload = example_files"
    by (simp add: example_upload_eq)
  have two: "length example_files = 2" "example_files \<noteq> []"
    by (simp_all add: example_files_def)
  have none: "upload_notifications example_upload = []"
    by (simp add: example_upload_eq)
  from removeFile_out_of_range [of example_upload 2]
    removeFile_out_of_range [of example_upload "- 1"]
  show ?thesis
    unfolding sel none using two by simp
qed

section \<open>The progress simulation\<close>

lemma later_refl: "progress a \<le> c \<Longrightarrow> later c i a a"
  by (simp add: later_def)

lemma later_trans:
  assumes "later c i a b" and "later c i b d"
  shows "later c i a d"
proof -
  have "real (delay a) * (progress d - progress a) =
      real (delay a) * (progress d - progress b) + real (delay a) * (progress b - progress a)"
    by (simp add: algebra_simps)
  also have "\<dots> \<le> i * (real (elapsed d) - real (elapsed b)) + i * (real (elapsed b) - real (elapsed a))"
    using assms by (intro add_mono) (simp_all add: later_def)
  also have "\<dots> = i * (real (elapsed d) - real (elapsed a))"
    by (simp add: algebra_simps)
  finally have rate: "real (delay a) * (progress d - progress a) \<le> i * (real (elapsed d) - real (elapsed a))" .
  from assms rate show ?thesis
    by (auto simp: later_def)
qed

lemma later_tick:
  assumes "running a" "0 \<le> r" "r < 1" "progress a \<le> c" "0 \<le> i"
    and p': "p' = (if progress a + r * i > c then c else progress a + r * i)"
  shows "later c i a (a\<lparr>progress := p', elapsed := elapsed a + delay a\<rparr>)"
proof -
  have "0 \<le> r * i"
    using assms by simp
  moreover have "r * i \<le> 1 * i"
    using assms by (intro mult_right_mono) simp_all
  ultimately have bounds: "progress a \<le> p'" "p' \<le> c" "p' - progress a \<le> i"
    using assms by (auto split: if_splits)
  have "real (delay a) * (p' - progress a) \<le> real (delay a) * i"
    using bounds(3) by (intro mult_left_mono) simp_all
  also have "\<dots> = i * (real (elapsed a + delay a) - real (elapsed a))"
    by simp
  finally show ?thesis
    using bounds assms(1) by (simp add: later_def)
qed

lemma later_clear: "running a \<Longrightarrow> progress a \<le> c \<Longrightarrow> later c i a (a\<lparr>running := False\<rparr>)"
  by (simp add: later_def)

lemma clearInterval_length [simp]: "length (clearInterval k sims) = length sims"
  by (simp add: clearInterval_def)

lemma clearInterval_other: "j \<noteq> k \<Longrightarrow> clearInterval k sims ! j = sims ! j"
  by (simp add: clearInterval_def)

lemma clearInterval_same:
  "k < length sims \<Longrightarrow> clearInterval k sims ! k = (sims ! k)\<lparr>running := False\<rparr>"
  by (simp add: clearInterval_def)

lemma clearInterval_twice [simp]: "clearInterval k (clearInterval k sims) = clearInterval k sims"
  by (simp add: clearInterval_def)

lemma later_clearInterval:
  assumes "j < length sims" "progress (sims ! j) \<le> c" "running (sims ! k)"
  shows "later c i (sims ! j) (clearInterval k sims ! j)"
proof (cases "j = k")
  case True
  with assms show ?thesis
    by (simp add: clearInterval_same later_clear)
next
  case False
  with assms show ?thesis
    by (simp add: clearInterval_other later_refl)
qed

text \<open>The simulations of the configuration page.\<close>

lemma intervals_handleSubmit_response:
  "progressIntervals (handleSubmit_response k res s) = clearInterval k (progressIntervals s)"
  by (auto simp: handleSubmit_response_def handleSubmit_then_def handleSubmit_catch_def
      showNotification_def Let_def split: fetch_result.splits body.splits)

lemma intervals_updateTotalMarks [simp]:
  "progressIntervals (updateTotalMarks s) = progressIntervals s"
  by (simp add: updateTotalMarks_def updateMarksValidation_def Let_def)

lemma intervals_handleSubmit:
  "progressIntervals (handleSubmit s) =
     (if length (requests (handleSubmit s)) = Suc (length (requests s))
      then progressIntervals s @ [setInterval 1000] else progressIntervals s)"
  by (auto simp: handleSubmit_def showNotification_def Let_def split: option.splits)

lemma intervals_perform:
  "k < length (progressIntervals s) \<Longrightarrow>
   k < length (progressIntervals (perform a s)) \<and>
   progressIntervals (perform a s) ! k = progressIntervals s ! k"
proof (cases a)
  case Submit
  assume "k < length (progressIntervals s)"
  then show ?thesis
    unfolding Submit by (simp add: intervals_handleSubmit nth_append)
qed (simp_all add: addQuestionSet_def updateQuestionSet_def removeQuestionSet_def
      change_total_marks_def updateMarksValidation_def showNotification_def Let_def)

lemma intervals_tick:
  assumes "k < length (progressIntervals s)" "running (progressIntervals s ! k)"
  shows "progressIntervals (handleSubmit_tick k r s) =
     (progressIntervals s)
       [k := (progressIntervals s ! k)
          \<lparr>progress := (if progress (progressIntervals s ! k) + r * 10 > 80 then 80
                        else progress (progressIntervals s ! k) + r * 10),
           elapsed := elapsed (progressIntervals s ! k) + delay (progressIntervals s ! k)\<rparr>]"
  using assms by (simp add: handleSubmit_tick_def Let_def)

lemma generate_step_later:
  assumes "generate_step s s'" and "j < length (progressIntervals s)"
    and "progress (progressIntervals s ! j) \<le> 80"
  shows "j < length (progressIntervals s') \<and>
    later 80 10 (progressIntervals s ! j) (progressIntervals s' ! j)"
  using assms
proof (induction rule: generate_step.induct)
  case (tick k s r)
  show ?case
  proof (cases "j = k")
    case True
    with tick show ?thesis
      by (simp add: intervals_tick later_tick)
  next
    case False
    with tick show ?thesis
      by (simp add: intervals_tick later_refl)
  qed
next
  case (settle k s res)
  then show ?case
    by (simp add: intervals_handleSubmit_response later_clearInterval)
next
  case (act s a)
  then show ?case
    by (simp add: intervals_perform later_refl)
qed

lemma generate_steps_later:
  "generate_step\<^sup>*\<^sup>* s s' \<Longrightarrow> j < length (progressIntervals s) \<Longrightarrow>
   progress (progressIntervals s ! j) \<le> 80 \<Longrightarrow>
   j < length (progressIntervals s') \<and>
   later 80 10 (progressIntervals s ! j) (progressIntervals s' ! j)"
proof (induction rule: rtranclp_induct)
  case base
  then show ?case
    by (simp add: later_refl)
next
  case (step y z)
  then have y: "j < length (progressIntervals y)"
    "later 80 10 (progressIntervals s ! j) (progressIntervals y ! j)"
    by simp_all
  then have "progress (progressIntervals y ! j) \<le> 80"
    by (simp add: later_def)
  with step.hyps(2) y(1) have "j < length (progressIntervals z) \<and>
      later 80 10 (progressIntervals y ! j) (progressIntervals z ! j)"
    by (rule generate_step_later)
  with y(2) show ?case
    by (blast intro: later_trans)
qed

text \<open>The simulations of the upload page.\<close>

lemma intervals_uploadFiles_response:
  "upload_progressIntervals (uploadFiles_response k res s) =
     clearInterval k (upload_progressIntervals s)"
  by (auto simp: uploadFiles_response_def uploadFiles_then_def uploadFiles_catch_def Let_def
      split: fetch_result.splits body.splits)

lemma intervals_uploadFiles:
  "upload_progressIntervals (uploadFiles s) =
     (if selectedFiles s = [] then upload_progressIntervals s
      else upload_progressIntervals s @ [setInterval 500])"
  by (simp add: uploadFiles_def)

lemma intervals_selection [simp]:
  "upload_progressIntervals (handleFiles files s) = upload_progressIntervals s"
  "upload_progressIntervals (removeFile index s) = upload_progressIntervals s"
  by (simp_all add: handleFiles_def removeFile_def updateUploadButton_def)

lemma intervals_upload_tick:
  assumes "k < length (upload_progressIntervals s)" "running (upload_progressIntervals s ! k)"
  shows "upload_progressIntervals (uploadFiles_tick k r s) =
     (upload_progressIntervals s)
       [k := (upload_progressIntervals s ! k)
          \<lparr>progress := (if progress (upload_progressIntervals s ! k) + r * 15 > 90 then 90
                        else progress (upload_progressIntervals s ! k) + r * 15),
           elapsed := elapsed (upload_progressIntervals s ! k) +
                      delay (upload_progressIntervals s ! k)\<rparr>]"
  using assms by (simp add: uploadFiles_tick_def Let_def)

lemma upload_step_later:
  assumes "upload_step s s'" and "j < length (upload_progressIntervals s)"
    and "progress (upload_progressIntervals s ! j) \<le> 90"
  shows "j < length (upload_progressIntervals s') \<and>
    later 90 15 (upload_progressIntervals s ! j) (upload_progressIntervals s' ! j)"
  using assms
proof (induction rule: upload_step.induct)
  case (tick k s r)
  show ?case
  proof (cases "j = k")
    case True
    with tick show ?thesis
      by (simp add: intervals_upload_tick later_tick)
  next
    case False
    with tick show ?thesis
      by (simp add: intervals_upload_tick later_refl)
  qed
next
  case (settle k s res)
  then show ?case
    by (simp add: intervals_uploadFiles_response later_clearInterval)
next
  case (pick s files)
  then show ?case
    by (simp add: later_refl)
next
  case (remove s index)
  then show ?case
    by (simp add: later_refl)
next
  case (click s)
  then show ?case
    by (simp add: intervals_uploadFiles nth_append later_refl)
qed

lemma upload_steps_later:
  "upload_step\<^sup>*\<^sup>* s s' \<Longrightarrow> j < length (upload_progressIntervals s) \<Longrightarrow>
   progress (upload_progressIntervals s ! j) \<le> 90 \<Longrightarrow>
   j < length (upload_progressIntervals s') \<and>
   later 90 15 (upload_progressIntervals s ! j) (upload_progressIntervals s' ! j)"
proof (induction rule: rtranclp_induct)
  case base
  then show ?case
    by (simp add: later_refl)
next
  case (step y z)
  then have y: "j < length (upload_progressIntervals y)"
    "later 90 15 (upload_progressIntervals s ! j) (upload_progressIntervals y ! j)"
    by simp_all
  then have "progress (upload_progressIntervals y ! j) \<le> 90"
    by (simp add: later_def)
  with step.hyps(2) y(1) have "j < length (upload_progressIntervals z) \<and>
      later 90 15 (upload_progressIntervals y ! j) (upload_progressIntervals z ! j)"
    by (rule upload_step_later)
  with y(2) show ?case
    by (blast intro: later_trans)
qed

lemma upload_response_bar:
  "progressBar_width (uploadFiles_response k res s) =
     (if body_parsed res then 100 else progressBar_width s)"
  by (cases res rule: body_parsed.cases)
     (auto simp: uploadFiles_response_def uploadFiles_then_def uploadFiles_catch_def Let_def)

lemma generate_response_bar:
  "generateProgress (handleSubmit_response k res s) =
     (if response_ok res \<and> body_parsed res \<and> progressBar s then 100 else generateProgress s)"
  by (cases res rule: body_parsed.cases)
     (auto simp: handleSubmit_response_def handleSubmit_then_def handleSubmit_catch_def
        showNotification_def Let_def)

lemma example_submitted_twice_eq:
  "example_submitted_twice =
     \<lparr>questionSets = [\<lparr>set_id = 0, set_type = ''short'', set_marks = Num 5, set_count = Num 1\<rparr>],
      totalMarks = Num 5, session_id = Some ''abc'',
      questionSetsContainer = True, totalMarksDisplay = True, loadingModal = True,
      progressBar = True, total_marks = ''5'', display_text = Num 5,
      display_class = ''text-green-600 font-bold'', loading_shown = True, generateProgress = 0,
      progressIntervals = [\<lparr>progress = 0, running = True, delay = 1000, elapsed = 0\<rparr>,
                           \<lparr>progress = 0, running = True, delay = 1000, elapsed = 0\<rparr>],
      navigation = None, notifications = [],
      requests = [\<lparr>url = ''/generate/abc'',
        question_config = ''{\"question_sets\":[{\"type\":\"short\",\"marks\":5,\"count\":1}]}''\<rparr>,
        \<lparr>url = ''/generate/abc'',
        question_config = ''{\"question_sets\":[{\"type\":\"short\",\"marks\":5,\"count\":1}]}''\<rparr>]\<rparr>"
  by (simp add: example_submitted_twice_def example_submitted_eq handleSubmit_def
      tolerance_exceeded_def stringify_questionConfig question_config_document_def
      question_set_document_def digits quote_keys parseInt_examples setInterval_def Let_def)

lemma example_uploading_twice_eq:
  "example_uploading_twice =
     \<lparr>selectedFiles = example_files, uploadBtn_disabled = True, uploadProgress_hidden = False,
      progressBar_width = 0, progressText = [],
      upload_progressIntervals = [\<lparr>progress = 0, running = True, delay = 500, elapsed = 0\<rparr>,
                                  \<lparr>progress = 0, running = True, delay = 500, elapsed = 0\<rparr>],
      upload_navigation = None, upload_notifications = [],
      uploads = [example_files, example_files]\<rparr>"
proof -
  have files: "splice 5 1 example_files = example_files" "example_files \<noteq> []"
    by (simp_all add: splice_def example_files_def)
  show ?thesis
    by (simp add: example_uploading_twice_def example_uploading_eq removeFile_def
        updateUploadButton_def uploadFiles_def setInterval_def files)
qed

lemma upload_twice_reachable: "upload_step\<^sup>*\<^sup>* example_upload example_uploading_twice"
proof -
  have "upload_step example_upload example_uploading"
    unfolding example_uploading_def by (rule upload_step.click) (simp add: example_upload_eq)
  moreover have "upload_step example_uploading (removeFile 5 example_uploading)"
    by (rule upload_step.remove)
  moreover have "upload_step (removeFile 5 example_uploading) example_uploading_twice"
    unfolding example_uploading_twice_def
    by (rule upload_step.click)
       (simp add: removeFile_def updateUploadButton_def example_uploading_eq splice_def
          example_files_def)
  ultimately show ?thesis
    by (meson rtranclp.rtrancl_into_rtrancl rtranclp.rtrancl_refl)
qed

lemma submit_twice_reachable:
  "generate_step\<^sup>*\<^sup>* (change_total_marks ''5'' (DOMContentLoaded example_page)) example_submitted_twice"
proof -
  have "generate_step (change_total_marks ''5'' (DOMContentLoaded example_page)) example_submitted"
    using generate_step.act [where a = Submit and s = "change_total_marks ''5'' (DOMContentLoaded example_page)"]
    by (simp add: example_submitted_def)
  moreover have "generate_step example_submitted example_submitted_twice"
    using generate_step.act [where a = Submit and s = example_submitted]
    by (simp add: example_submitted_twice_def)
  ultimately show ?thesis
    by (meson rtranclp.rtrancl_into_rtrancl rtranclp.rtrancl_refl)
qed

text \<open>
  Claim C10, as stated, fails: the bar is not set to 100 on every response. On the
  configuration page, after one tick with \<^verbatim>\<open>Math.random()\<close> at one half, a response with
  status 500 clears the interval of its call and leaves the bar at 5.
\<close>

theorem bar_not_forced_counterexample:
  "\<not> running (progressIntervals
       (handleSubmit_response 0 success_with_status_500
         (handleSubmit_tick 0 (1 / 2) example_submitted)) ! 0)
   \<and> generateProgress
       (handleSubmit_response 0 success_with_status_500
         (handleSubmit_tick 0 (1 / 2) example_submitted)) = 5
   \<and> generateProgress
       (handleSubmit_response 0 success_with_status_500
         (handleSubmit_tick 0 (1 / 2) example_submitted)) \<noteq> 100"
  by (simp add: example_submitted_eq success_with_status_500_def handleSubmit_tick_def
      handleSubmit_response_def handleSubmit_catch_def ok_def showNotification_def
      clearInterval_def Let_def)

text \<open>
  Claim C10, amended. Each progress simulation, one for each call that sends a request,
  is a step relation on its progress value; a step of the page is a tick of any
  simulation, the settling of any outstanding request, or a user action, a further
  submission or upload among them. Along all steps, from a progress at or below the
  ceiling (90 for the upload, 80 for the generation; each simulation starts at 0), the
  progress never decreases and never exceeds the ceiling. A tick takes one delay of the
  interval, 500 time units for the upload and 1000 for the generation, and adds at most
  15, respectively 10; so the progress gained is at most 15 per 500 time units,
  respectively 10 per 1000. Every outcome of a request, a rejection or a response of any
  kind, clears the interval of its own call and leaves the others as they are; a
  simulation whose interval is cleared never changes again. The bar is set to 100 exactly
  when the handler of the parsed body runs: for the upload when the body parsed, for the
  generation when moreover the status is from 200 to 299 (and the bar is on the page);
  otherwise the bar keeps its width.
\<close>

theorem progress_simulation:
  "(upload_step\<^sup>*\<^sup>* u u' \<longrightarrow> k < length (upload_progressIntervals u) \<longrightarrow>
      progress (upload_progressIntervals u ! k) \<le> 90 \<longrightarrow>
        k < length (upload_progressIntervals u')
        \<and> progress (upload_progressIntervals u ! k) \<le> progress (upload_progressIntervals u' ! k)
        \<and> progress (upload_progressIntervals u' ! k) \<le> 90
        \<and> real (delay (upload_progressIntervals u ! k)) *
            (progress (upload_progressIntervals u' ! k) - progress (upload_progressIntervals u ! k)) \<le>
            15 * (real (elapsed (upload_progressIntervals u' ! k)) -
                  real (elapsed (upload_progressIntervals u ! k)))
        \<and> (\<not> running (upload_progressIntervals u ! k) \<longrightarrow>
             upload_progressIntervals u' ! k = upload_progressIntervals u ! k))
   \<and> (k < length (upload_progressIntervals u) \<and> running (upload_progressIntervals u ! k) \<and>
      0 \<le> r \<and> r < 1 \<longrightarrow>
        elapsed (upload_progressIntervals (uploadFiles_tick k r u) ! k) =
          elapsed (upload_progressIntervals u ! k) + delay (upload_progressIntervals u ! k)
        \<and> progress (upload_progressIntervals (uploadFiles_tick k r u) ! k) \<le>
            progress (upload_progressIntervals u ! k) + 15
        \<and> progressBar_width (uploadFiles_tick k r u) =
            progress (upload_progressIntervals (uploadFiles_tick k r u) ! k))
   \<and> (selectedFiles u \<noteq> [] \<longrightarrow>
        upload_progressIntervals (uploadFiles u) =
          upload_progressIntervals u @ [\<lparr>progress = 0, running = True, delay = 500, elapsed = 0\<rparr>])
   \<and> (k < length (upload_progressIntervals u) \<longrightarrow>
        \<not> running (upload_progressIntervals (uploadFiles_response k res u) ! k))
   \<and> (j \<noteq> k \<longrightarrow>
        upload_progressIntervals (uploadFiles_response k res u) ! j = upload_progressIntervals u ! j)
   \<and> progressBar_width (uploadFiles_response k res u) =
       (if body_parsed res then 100 else progressBar_width u)
   \<and> (generate_step\<^sup>*\<^sup>* g g' \<longrightarrow> k < length (progressIntervals g) \<longrightarrow>
      progress (progressIntervals g ! k) \<le> 80 \<longrightarrow>
        k < length (progressIntervals g')
        \<and> progress (progressIntervals g ! k) \<le> progress (progressIntervals g' ! k)
        \<and> progress (progressIntervals g' ! k) \<le> 80
        \<and> real (delay (progressIntervals g ! k)) *
            (progress (progressIntervals g' ! k) - progress (progressIntervals g ! k)) \<le>
            10 * (real (elapsed (progressIntervals g' ! k)) - real (elapsed (progressIntervals g ! k)))
        \<and> (\<not> running (progressIntervals g ! k) \<longrightarrow>
             progressIntervals g' ! k = progressIntervals g ! k))
   \<and> (k < length (progressIntervals g) \<and> running (progressIntervals g ! k) \<and>
      0 \<le> r \<and> r < 1 \<longrightarrow>
        elapsed (progressIntervals (handleSubmit_tick k r g) ! k) =
          elapsed (progressIntervals g ! k) + delay (progressIntervals g ! k)
        \<and> progress (progressIntervals (handleSubmit_tick k r g) ! k) \<le>
            progress (progressIntervals g ! k) + 10
        \<and> (progressBar g \<longrightarrow> generateProgress (handleSubmit_tick k r g) =
            progress (progressIntervals (handleSubmit_tick k r g) ! k)))
   \<and> (length (requests (handleSubmit g)) = Suc (length (requests g)) \<longrightarrow>
        progressIntervals (handleSubmit g) =
          progressIntervals g @ [\<lparr>progress = 0, running = True, delay = 1000, elapsed = 0\<rparr>])
   \<and> (k < length (progressIntervals g) \<longrightarrow>
        \<not> running (progressIntervals (handleSubmit_response k res g) ! k))
   \<and> (j \<noteq> k \<longrightarrow>
        progressIntervals (handleSubmit_response k res g) ! j = progressIntervals g ! j)
   \<and> generateProgress (handleSubmit_response k res g) =
       (if response_ok res \<and> body_parsed res \<and> progressBar g then 100 else generateProgress g)"
proof -
  have upload_runs: "upload_step\<^sup>*\<^sup>* u u' \<longrightarrow> k < length (upload_progressIntervals u) \<longrightarrow>
      progress (upload_progressIntervals u ! k) \<le> 90 \<longrightarrow>
        k < length (upload_progressIntervals u')
        \<and> progress (upload_progressIntervals u ! k) \<le> progress (upload_progressIntervals u' ! k)
        \<and> progress (upload_progressIntervals u' ! k) \<le> 90
        \<and> real (delay (upload_progressIntervals u ! k)) *
            (progress (upload_progressIntervals u' ! k) - progress (upload_progressIntervals u ! k)) \<le>
            15 * (real (elapsed (upload_progressIntervals u' ! k)) -
                  real (elapsed (upload_progressIntervals u ! k)))
        \<and> (\<not> running (upload_progressIntervals u ! k) \<longrightarrow>
             upload_progressIntervals u' ! k = upload_progressIntervals u ! k)"
    using upload_steps_later [of u u' k] by (simp add: later_def)
  have generate_runs: "generate_step\<^sup>*\<^sup>* g g' \<longrightarrow> k < length (progressIntervals g) \<longrightarrow>
      progress (progressIntervals g ! k) \<le> 80 \<longrightarrow>
        k < length (progressIntervals g')
        \<and> progress (progressIntervals g ! k) \<le> progress (progressIntervals g' ! k)
        \<and> progress (progressIntervals g' ! k) \<le> 80
        \<and> real (delay (progressIntervals g ! k)) *
            (progress (progressIntervals g' ! k) - progress (progressIntervals g ! k)) \<le>
            10 * (real (elapsed (progressIntervals g' ! k)) - real (elapsed (progressIntervals g ! k)))
        \<and> (\<not> running (progressIntervals g ! k) \<longrightarrow>
             progressIntervals g' ! k = progressIntervals g ! k)"
    using generate_steps_later [of g g' k] by (simp add: later_def)
  have upload_tick: "k < length (upload_progressIntervals u) \<and>
      running (upload_progressIntervals u ! k) \<and> 0 \<le> r \<and> r < 1 \<longrightarrow>
        elapsed (upload_progressIntervals (uploadFiles_tick k r u) ! k) =
          elapsed (upload_progressIntervals u ! k) + delay (upload_progressIntervals u ! k)
        \<and> progress (upload_progressIntervals (uploadFiles_tick k r u) ! k) \<le>
            progress (upload_progressIntervals u ! k) + 15
        \<and> progressBar_width (uploadFiles_tick k r u) =
            progress (upload_progressIntervals (uploadFiles_tick k r u) ! k)"
    by (simp add: uploadFiles_tick_def Let_def)
  have generate_tick: "k < length (progressIntervals g) \<and> running (progressIntervals g ! k) \<and>
      0 \<le> r \<and> r < 1 \<longrightarrow>
        elapsed (progressIntervals (handleSubmit_tick k r g) ! k) =
          elapsed (progressIntervals g ! k) + delay (progressIntervals g ! k)
        \<and> progress (progressIntervals (handleSubmit_tick k r g) ! k) \<le>
            progress (progressIntervals g ! k) + 10
        \<and> (progressBar g \<longrightarrow> generateProgress (handleSubmit_tick k r g) =
            progress (progressIntervals (handleSubmit_tick k r g) ! k))"
    by (simp add: handleSubmit_tick_def Let_def)
  have upload_start: "selectedFiles u \<noteq> [] \<longrightarrow>
        upload_progressIntervals (uploadFiles u) =
          upload_progressIntervals u @ [\<lparr>progress = 0, running = True, delay = 500, elapsed = 0\<rparr>]"
    by (simp add: intervals_uploadFiles setInterval_def)
  have generate_start: "length (requests (handleSubmit g)) = Suc (length (requests g)) \<longrightarrow>
        progressIntervals (handleSubmit g) =
          progressIntervals g @ [\<lparr>progress = 0, running = True, delay = 1000, elapsed = 0\<rparr>]"
    by (simp add: intervals_handleSubmit setInterval_def)
  have upload_clear: "k < length (upload_progressIntervals u) \<longrightarrow>
        \<not> running (upload_progressIntervals (uploadFiles_response k res u) ! k)"
    by (simp add: intervals_uploadFiles_response clearInterval_same)
  have generate_clear: "k < length (progressIntervals g) \<longrightarrow>
        \<not> running (progressIntervals (handleSubmit_response k res g) ! k)"
    by (simp add: intervals_handleSubmit_response clearInterval_same)
  have upload_others: "j \<noteq> k \<longrightarrow>
        upload_progressIntervals (uploadFiles_response k res u) ! j = upload_progressIntervals u ! j"
    by (simp add: intervals_uploadFiles_response clearInterval_other)
  have generate_others: "j \<noteq> k \<longrightarrow>
        progressIntervals (handleSubmit_response k res g) ! j = progressIntervals g ! j"
    by (simp add: intervals_handleSubmit_response clearInterval_other)
  from upload_runs upload_tick upload_start upload_clear upload_others
    upload_response_bar [of k res u]
    generate_runs generate_tick generate_start generate_clear generate_others
    generate_response_bar [of k res g]
  show ?thesis
    by (intro conjI)
qed

text \<open>
  The theorem at two requests outstanding on each page: the first is answered, the
  simulation of the second goes on.
\<close>

theorem progress_simulation_witness:
  "upload_step\<^sup>*\<^sup>* example_uploading_twice
     (uploadFiles_tick 1 (1 / 2) (uploadFiles_response 0 success_with_status_500 example_uploading_twice))
   \<and> 1 < length (upload_progressIntervals example_uploading_twice)
   \<and> progress (upload_progressIntervals example_uploading_twice ! 1) = 0
   \<and> upload_progressIntervals
       (uploadFiles_tick 1 (1 / 2) (uploadFiles_response 0 success_with_status_500 example_uploading_twice)) =
       [\<lparr>progress = 0, running = False, delay = 500, elapsed = 0\<rparr>,
        \<lparr>progress = 15 / 2, running = True, delay = 500, elapsed = 500\<rparr>]
   \<and> progress (upload_progressIntervals
       (uploadFiles_tick 1 (1 / 2) (uploadFiles_response 0 success_with_status_500 example_uploading_twice)) ! 1) \<le> 90
   \<and> generate_step\<^sup>*\<^sup>* example_submitted_twice
     (handleSubmit_tick 1 (1 / 2) (handleSubmit_response 0 success_with_status_500 example_submitted_twice))
   \<and> 1 < length (progressIntervals example_submitted_twice)
   \<and> progress (progressIntervals example_submitted_twice ! 1) = 0
   \<and> progressIntervals
       (handleSubmit_tick 1 (1 / 2) (handleSubmit_response 0 success_with_status_500 example_submitted_twice)) =
       [\<lparr>progress = 0, running = False, delay = 1000, elapsed = 0\<rparr>,
        \<lparr>progress = 5, running = True, delay = 1000, elapsed = 1000\<rparr>]
   \<and> progress (progressIntervals
       (handleSubmit_tick 1 (1 / 2) (handleSubmit_response 0 success_with_status_500 example_submitted_twice)) ! 1) \<le> 80"
proof -
  have u1: "upload_progressIntervals (uploadFiles_response 0 success_with_status_500 example_uploading_twice) =
      [\<lparr>progress = 0, running = False, delay = 500, elapsed = 0\<rparr>,
       \<lparr>progress = 0, running = True, delay = 500, elapsed = 0\<rparr>]"
    by (simp add: intervals_uploadFiles_response example_uploading_twice_eq clearInterval_def)
  have u2: "upload_progressIntervals
       (uploadFiles_tick 1 (1 / 2) (uploadFiles_response 0 success_with_status_500 example_uploading_twice)) =
       [\<lparr>progress = 0, running = False, delay = 500, elapsed = 0\<rparr>,
        \<lparr>progress = 15 / 2, running = True, delay = 500, elapsed = 500\<rparr>]"
    by (simp add: intervals_upload_tick u1)
  have us: "upload_step\<^sup>*\<^sup>* example_uploading_twice
     (uploadFiles_tick 1 (1 / 2) (uploadFiles_response 0 success_with_status_500 example_uploading_twice))"
  proof -
    have "upload_step example_uploading_twice
        (uploadFiles_response 0 success_with_status_500 example_uploading_twice)"
      by (rule upload_step.settle) (simp_all add: example_uploading_twice_eq)
    moreover have "upload_step (uploadFiles_response 0 success_with_status_500 example_uploading_twice)
        (uploadFiles_tick 1 (1 / 2) (uploadFiles_response 0 success_with_status_500 example_uploading_twice))"
      by (rule upload_step.tick) (simp_all add: u1)
    ultimately show ?thesis
      by (meson rtranclp.rtrancl_into_rtrancl rtranclp.rtrancl_refl)
  qed
  have u0: "1 < length (upload_progressIntervals example_uploading_twice)"
    "progress (upload_progressIntervals example_uploading_twice ! 1) = 0"
    by (simp_all add: example_uploading_twice_eq)
  have g1: "progressIntervals (handleSubmit_response 0 success_with_status_500 example_submitted_twice) =
      [\<lparr>progress = 0, running = False, delay = 1000, elapsed = 0\<rparr>,
       \<lparr>progress = 0, running = True, delay = 1000, elapsed = 0\<rparr>]"
    by (simp add: intervals_handleSubmit_response example_submitted_twice_eq clearInterval_def)
  have g2: "progressIntervals
       (handleSubmit_tick 1 (1 / 2) (handleSubmit_response 0 success_with_status_500 example_submitted_twice)) =
       [\<lparr>progress = 0, running = False, delay = 1000, elapsed = 0\<rparr>,
        \<lparr>progress = 5, running = True, delay = 1000, elapsed = 1000\<rparr>]"
    by (simp add: intervals_tick g1)
  have gs: "generate_step\<^sup>*\<^sup>* example_submitted_twice
     (handleSubmit_tick 1 (1 / 2) (handleSubmit_response 0 success_with_status_500 example_submitted_twice))"
  proof -
    have "generate_step example_submitted_twice
        (handleSubmit_response 0 success_with_status_500 example_submitted_twice)"
      by (rule generate_step.settle) (simp_all add: example_submitted_twice_eq)
    moreover have "generate_step (handleSubmit_response 0 success_with_status_500 example_submitted_twice)
        (handleSubmit_tick 1 (1 / 2) (handleSubmit_response 0 success_with_status_500 example_submitted_twice))"
      by (rule generate_step.tick) (simp_all add: g1)
    ultimately show ?thesis
      by (meson rtranclp.rtrancl_into_rtrancl rtranclp.rtrancl_refl)
  qed
  have g0: "1 < length (progressIntervals example_submitted_twice)"
    "progress (progressIntervals example_submitted_twice ! 1) = 0"
    by (simp_all add: example_submitted_twice_eq)
  from progress_simulation
    [where u = example_uploading_twice
       and u' = "uploadFiles_tick 1 (1 / 2)
                  (uploadFiles_response 0 success_with_status_500 example_uploading_twice)"
       and k = 1
       and g = example_submitted_twice
       and g' = "handleSubmit_tick 1 (1 / 2)
                  (handleSubmit_response 0 success_with_status_500 example_submitted_twice)"]
    us u0 gs g0
  have "progress (upload_progressIntervals
       (uploadFiles_tick 1 (1 / 2) (uploadFiles_response 0 success_with_status_500 example_uploading_twice)) ! 1) \<le> 90"
    "progress (progressIntervals
       (handleSubmit_tick 1 (1 / 2) (handleSubmit_response 0 success_with_status_500 example_submitted_twice)) ! 1) \<le> 80"
    by simp_all
  with us u0 u2 gs g0 g2 show ?thesis
    by (intro conjI)
qed

end
